theory Spec2Isabelle
  imports Complex_Main "HOL-Library.Sublist"
begin

section \<open>Python strings\<close>

text \<open>
  Strings are lists of characters. The source only ever handles them through
  \<^verbatim>\<open>lower()\<close>, \<^verbatim>\<open>strip()\<close>, \<^verbatim>\<open>in\<close>, slicing, \<^verbatim>\<open>join\<close>
  and \<^verbatim>\<open>replace\<close>. The texts and file names of the model are ASCII: the case
  mapping, the whitespace class and the word class are the ASCII ones, and a character
  outside ASCII is neither a letter nor a blank here.
\<close>

definition ascii_uppercase :: string where
  "ascii_uppercase = ''ABCDEFGHIJKLMNOPQRSTUVWXYZ''"

definition ascii_lowercase :: string where
  "ascii_lowercase = ''abcdefghijklmnopqrstuvwxyz''"

definition lower_char :: "char \<Rightarrow> char" where
  "lower_char c =
     (case map_of (zip ascii_uppercase ascii_lowercase) c of Some l \<Rightarrow> l | None \<Rightarrow> c)"

definition upper_char :: "char \<Rightarrow> char" where
  "upper_char c =
     (case map_of (zip ascii_lowercase ascii_uppercase) c of Some u \<Rightarrow> u | None \<Rightarrow> c)"

definition lower :: "string \<Rightarrow> string" where
  "lower s = map lower_char s"

definition is_alpha :: "char \<Rightarrow> bool" where
  "is_alpha c = (c \<in> set (ascii_uppercase @ ascii_lowercase))"

text \<open>Tab, line feed, vertical tab, form feed, carriage return, the four separators, blank.\<close>

definition is_space :: "char \<Rightarrow> bool" where
  "is_space c =
     (c \<in> set [CHR 0x09, CHR 0x0A, CHR 0x0B, CHR 0x0C, CHR 0x0D,
                CHR 0x1C, CHR 0x1D, CHR 0x1E, CHR 0x1F, CHR '' ''])"

definition strip :: "string \<Rightarrow> string" where
  "strip s = rev (dropWhile is_space (rev (dropWhile is_space s)))"

text \<open>\<^verbatim>\<open>p in t\<close> on strings: \<open>p\<close> occurs as a contiguous piece of \<open>t\<close>.\<close>

fun str_in :: "string \<Rightarrow> string \<Rightarrow> bool" where
  "str_in p [] = (p = [])"
| "str_in p (c # cs) = (prefix p (c # cs) \<or> str_in p cs)"

text \<open>\<^verbatim>\<open>sep.join(xs)\<close>.\<close>

fun join :: "string \<Rightarrow> string list \<Rightarrow> string" where
  "join sep [] = []"
| "join sep [x] = x"
| "join sep (x # y # ys) = x @ sep @ join sep (y # ys)"

text \<open>\<^verbatim>\<open>str(n)\<close> for an integer.\<close>

definition digit_char :: "nat \<Rightarrow> char" where
  "digit_char d = ''0123456789'' ! d"

function str_nat :: "nat \<Rightarrow> string" where
  "str_nat n = (if n < 10 then [digit_char n] else str_nat (n div 10) @ [digit_char (n mod 10)])"
  by pat_completeness auto
termination
  by (relation "measure id") auto

definition str_int :: "int \<Rightarrow> string" where
  "str_int i = (if i < 0 then CHR ''-'' # str_nat (nat (- i)) else str_nat (nat i))"

section \<open>Documents\<close>

text \<open>
  A loaded document is the list of the children of its body, in order: paragraphs, tables
  (rows of cell texts) and the closing section properties. The runs of a paragraph are
  not told apart: a paragraph carries its text, the number of its runs and the formatting
  the program sets on its runs. A file that the document library cannot open is \<open>Unreadable\<close>, with the
  message of the exception.
\<close>

datatype wd_color_index = RED | YELLOW | BRIGHT_GREEN

record para =
  p_text :: string
  p_runs :: nat
  p_highlight :: "wd_color_index option"
  p_bold :: bool
  p_italic :: bool
  p_size :: "int option"
  p_rgb :: "(int \<times> int \<times> int) option"

datatype block = Para para | Tbl "string list list" | SectPr

datatype docx_file = Unreadable string | Docx "block list"

text \<open>
  A paragraph without formatting: one run that holds the text, no run for the empty text.
  Setting the text of a new paragraph gives it one run.
\<close>

definition plain :: "string \<Rightarrow> para" where
  "plain t = \<lparr>p_text = t, p_runs = (if t = [] then 0 else 1), p_highlight = None,
              p_bold = False, p_italic = False, p_size = None, p_rgb = None\<rparr>"

text \<open>\<^verbatim>\<open>doc.paragraphs\<close> and \<^verbatim>\<open>doc.tables\<close>.\<close>

fun paragraphs :: "block list \<Rightarrow> para list" where
  "paragraphs [] = []"
| "paragraphs (Para p # bs) = p # paragraphs bs"
| "paragraphs (b # bs) = paragraphs bs"

fun tables :: "block list \<Rightarrow> string list list list" where
  "tables [] = []"
| "tables (Tbl t # bs) = t # tables bs"
| "tables (b # bs) = tables bs"

section \<open>Issues and the compliance scorer (red\_flag\_detector.py)\<close>

text \<open>
  An issue is the dictionary built by the detector. \<open>pattern_found\<close> is absent on the
  structural issues; \<open>rag_guidance\<close> is whatever the enrichment collaborator returned,
  \<open>None\<close> included.
\<close>

record issue =
  flag_type :: string
  paragraph_index :: int
  paragraph_text :: string
  issue_text :: string
  pattern_found :: "string option"
  severity :: string
  suggestion :: string
  rag_guidance :: "string option"
  adgm_reference :: string

text \<open>
  The analysis dictionary. The keys that the error result of \<open>analyze_document\<close> does not
  carry are optional.
\<close>

record analysis =
  document_type :: string
  issues_found :: "issue list"
  compliance_score :: int
  total_flags :: "int option"
  critical_issues :: "int option"
  warnings :: "int option"
  compliance_status :: "string option"
  error :: "string option"

definition get_compliance_status :: "int \<Rightarrow> string" where
  "get_compliance_status score =
     (if score \<ge> 90 then ''Compliant''
      else if score \<ge> 70 then ''Minor Issues''
      else if score \<ge> 50 then ''Major Issues''
      else ''Non-Compliant'')"

definition calculate_compliance_metrics :: "analysis \<Rightarrow> analysis" where
  "calculate_compliance_metrics a =
     (let issues = issues_found a;
          critical_count = int (length (filter (\<lambda>i. severity i = ''High'') issues));
          warning_count = int (length (filter (\<lambda>i. severity i = ''Medium'') issues));
          score = 100;
          score = score - critical_count * 20;
          score = score - warning_count * 10;
          score = max 0 score
      in a\<lparr>compliance_score := score,
           total_flags := Some (int (length issues)),
           critical_issues := Some critical_count,
           warnings := Some warning_count,
           compliance_status := Some (get_compliance_status score)\<rparr>)"

text \<open>
  The number of issues of one severity, as the specification counts them.
\<close>

definition count_severity :: "string \<Rightarrow> issue list \<Rightarrow> int" where
  "count_severity s issues = int (count_list (map severity issues) s)"

section \<open>The red-flag detector (red\_flag\_detector.py, config.py)\<close>

record flag_config =
  patterns :: "string list"
  correct :: string
  flag_severity :: string
  description :: string

text \<open>\<^verbatim>\<open>RED_FLAGS\<close>: a dictionary, in the order it is written.\<close>

definition RED_FLAGS :: "(string \<times> flag_config) list" where
  "RED_FLAGS =
    [(''jurisdiction'',
       \<lparr>patterns = [''uae federal court'', ''dubai court'', ''sharjah court'', ''federal court''],
        correct = ''ADGM Courts'',
        flag_severity = ''High'',
        description = ''Jurisdiction must be ADGM Courts, not UAE federal or other emirate courts''\<rparr>),
     (''governing_law'',
       \<lparr>patterns = [''uae law'', ''dubai law'', ''federal law''],
        correct = ''ADGM law'',
        flag_severity = ''High'',
        description = ''Governing law must reference ADGM law and regulations''\<rparr>),
     (''registration_authority'',
       \<lparr>patterns = [''department of economic development'', ''ded'', ''chamber of commerce''],
        correct = ''ADGM Registration Authority'',
        flag_severity = ''High'',
        description = ''Registration authority must be ADGM Registration Authority''\<rparr>),
     (''signature_requirements'',
       \<lparr>patterns = [''without signature'', ''unsigned'', ''no signature block''],
        correct = ''Proper signature blocks required'',
        flag_severity = ''Medium'',
        description = ''All documents must have proper signature blocks for authorized signatories''\<rparr>)]"

text \<open>
  The enrichment collaborator, \<^verbatim>\<open>rag_system.get_compliance_guidance(document_type,
  issue_type)\<close>: it answers with a text or with \<open>None\<close>.
\<close>

type_synonym rag_system = "string \<Rightarrow> string \<Rightarrow> string option"

record paragraph_data =
  pd_index :: int
  pd_text :: string
  pd_text_lower :: string

text \<open>The paragraphs with their positions, blank ones left out (\<^verbatim>\<open>enumerate\<close>).\<close>

definition extract_paragraphs_data :: "para list \<Rightarrow> paragraph_data list" where
  "extract_paragraphs_data ps =
     map (\<lambda>(i, p). \<lparr>pd_index = int i, pd_text = p_text p, pd_text_lower = lower (p_text p)\<rparr>)
       (filter (\<lambda>(i, p). strip (p_text p) \<noteq> []) (enumerate 0 ps))"

definition get_relevant_adgm_reference :: "string \<Rightarrow> string" where
  "get_relevant_adgm_reference ft =
     (case map_of
        [(''jurisdiction'', ''ADGM Courts and Civil Procedures Rules''),
         (''governing_law'', ''ADGM Companies Regulations''),
         (''registration_authority'', ''ADGM Registration Authority Regulations''),
         (''signature_requirements'', ''ADGM Companies Regulations - Execution of Documents'')] ft of
        Some r \<Rightarrow> r
      | None \<Rightarrow> ''ADGM General Regulations'')"

text \<open>The issue built in the innermost loop of \<open>_detect_flag_in_paragraphs\<close>.\<close>

definition pattern_issue ::
  "rag_system \<Rightarrow> string \<Rightarrow> flag_config \<Rightarrow> paragraph_data \<Rightarrow> string \<Rightarrow> issue" where
  "pattern_issue rag ft cfg pd pattern =
     \<lparr>flag_type = ft,
      paragraph_index = pd_index pd,
      paragraph_text =
        (if length (pd_text pd) > 200 then take 200 (pd_text pd) @ ''...'' else pd_text pd),
      issue_text = description cfg,
      pattern_found = Some pattern,
      severity = flag_severity cfg,
      suggestion = ''Replace with: '' @ correct cfg,
      rag_guidance = rag ''general'' ft,
      adgm_reference = get_relevant_adgm_reference ft\<rparr>"

text \<open>For every paragraph, for every pattern that occurs in it, one issue.\<close>

definition detect_flag_in_paragraphs ::
  "rag_system \<Rightarrow> paragraph_data list \<Rightarrow> string \<Rightarrow> flag_config \<Rightarrow> issue list" where
  "detect_flag_in_paragraphs rag paragraphs_data ft cfg =
     concat (map (\<lambda>pd. map (pattern_issue rag ft cfg pd)
                         (filter (\<lambda>pattern. str_in pattern (pd_text_lower pd)) (patterns cfg)))
                 paragraphs_data)"

definition articles_required_sections :: "(string \<times> string) list" where
  "articles_required_sections =
     [(''share capital'', ''Share capital structure must be defined''),
      (''directors'', ''Directors' powers and responsibilities must be specified''),
      (''meetings'', ''Meeting procedures must be outlined''),
      (''dividends'', ''Dividend distribution rules must be included'')]"

definition memorandum_required_elements :: "(string \<times> string) list" where
  "memorandum_required_elements =
     [(''company name'', ''Company name must be clearly stated''),
      (''registered office'', ''Registered office address must be specified''),
      (''objects'', ''Company objects and powers must be defined''),
      (''liability'', ''Member liability must be specified'')]"

definition employment_required_clauses :: "(string \<times> string) list" where
  "employment_required_clauses =
     [(''job description'', ''Job description and duties must be specified''),
      (''salary'', ''Salary and compensation must be defined''),
      (''working hours'', ''Working hours and schedule must be outlined''),
      (''notice period'', ''Notice periods for termination must be specified''),
      (''data protection'', ''Data protection and confidentiality clauses required'')]"

definition all_text_of :: "paragraph_data list \<Rightarrow> string" where
  "all_text_of paragraphs_data = join '' '' (map pd_text_lower paragraphs_data)"

definition check_articles_specific_requirements ::
  "rag_system \<Rightarrow> paragraph_data list \<Rightarrow> issue list" where
  "check_articles_specific_requirements rag paragraphs_data =
     map (\<lambda>(section, descr).
            \<lparr>flag_type = ''missing_section'',
             paragraph_index = 0,
             paragraph_text = ''Document structure'',
             issue_text = ''Missing required section: '' @ section,
             pattern_found = None,
             severity = ''High'',
             suggestion = descr,
             rag_guidance = rag ''articles_of_association'' section,
             adgm_reference = ''ADGM Companies Regulations - Articles of Association Requirements''\<rparr>)
       (filter (\<lambda>(section, descr). \<not> str_in section (all_text_of paragraphs_data))
          articles_required_sections)"

definition check_memorandum_specific_requirements ::
  "rag_system \<Rightarrow> paragraph_data list \<Rightarrow> issue list" where
  "check_memorandum_specific_requirements rag paragraphs_data =
     map (\<lambda>(element, descr).
            \<lparr>flag_type = ''missing_element'',
             paragraph_index = 0,
             paragraph_text = ''Document content'',
             issue_text = ''Missing required element: '' @ element,
             pattern_found = None,
             severity = ''High'',
             suggestion = descr,
             rag_guidance = rag ''memorandum_of_association'' element,
             adgm_reference = ''ADGM Companies Regulations - Memorandum of Association Requirements''\<rparr>)
       (filter (\<lambda>(element, descr). \<not> str_in element (all_text_of paragraphs_data))
          memorandum_required_elements)"

definition check_employment_contract_requirements ::
  "rag_system \<Rightarrow> paragraph_data list \<Rightarrow> issue list" where
  "check_employment_contract_requirements rag paragraphs_data =
     map (\<lambda>(clause, descr).
            \<lparr>flag_type = ''missing_clause'',
             paragraph_index = 0,
             paragraph_text = ''Contract terms'',
             issue_text = ''Missing required clause: '' @ clause,
             pattern_found = None,
             severity = ''Medium'',
             suggestion = descr,
             rag_guidance = rag ''employment_contract'' clause,
             adgm_reference = ''ADGM Employment Regulations 2019''\<rparr>)
       (filter (\<lambda>(clause, descr). \<not> str_in clause (all_text_of paragraphs_data))
          employment_required_clauses)"

definition signature_patterns :: "string list" where
  "signature_patterns = [''signature'', ''signed by'', ''director signature'', ''authorized signatory'']"

definition has_signature :: "paragraph_data list \<Rightarrow> bool" where
  "has_signature paragraphs_data =
     list_ex (\<lambda>pattern. str_in pattern (all_text_of paragraphs_data)) signature_patterns"

definition missing_signature_issue :: "rag_system \<Rightarrow> paragraph_data list \<Rightarrow> string \<Rightarrow> issue" where
  "missing_signature_issue rag paragraphs_data dt =
     \<lparr>flag_type = ''missing_signature'',
      paragraph_index = int (length paragraphs_data) - 1,
      paragraph_text = ''End of document'',
      issue_text = ''Document appears to be missing signature blocks'',
      pattern_found = None,
      severity = ''Medium'',
      suggestion = ''Add proper signature blocks for authorized signatories'',
      rag_guidance = rag dt ''signatures'',
      adgm_reference = ''ADGM Companies Regulations - Execution of Documents''\<rparr>"

definition type_specific_checks :: "rag_system \<Rightarrow> paragraph_data list \<Rightarrow> string \<Rightarrow> issue list" where
  "type_specific_checks rag paragraphs_data dt =
     (if dt = ''articles_of_association'' then
        check_articles_specific_requirements rag paragraphs_data
      else if dt = ''memorandum_of_association'' then
        check_memorandum_specific_requirements rag paragraphs_data
      else if dt = ''employment_contract'' then
        check_employment_contract_requirements rag paragraphs_data
      else [])"

definition perform_additional_checks ::
  "rag_system \<Rightarrow> paragraph_data list \<Rightarrow> string \<Rightarrow> issue list" where
  "perform_additional_checks rag paragraphs_data dt =
     (if has_signature paragraphs_data then []
      else [missing_signature_issue rag paragraphs_data dt])
     @ type_specific_checks rag paragraphs_data dt"

text \<open>The pattern scan of \<open>analyze_document\<close>: flag kinds outermost, in table order.\<close>

definition pattern_scan ::
  "(string \<times> flag_config) list \<Rightarrow> rag_system \<Rightarrow> paragraph_data list \<Rightarrow> issue list" where
  "pattern_scan red_flags rag paragraphs_data =
     concat (map (\<lambda>(ft, cfg). detect_flag_in_paragraphs rag paragraphs_data ft cfg) red_flags)"

definition analyze_document ::
  "(string \<times> flag_config) list \<Rightarrow> rag_system \<Rightarrow> docx_file \<Rightarrow> string \<Rightarrow> analysis" where
  "analyze_document red_flags rag file dt =
     (case file of
        Unreadable e \<Rightarrow>
          \<lparr>document_type = dt, issues_found = [], compliance_score = 0,
           total_flags = None, critical_issues = None, warnings = None,
           compliance_status = None, error = Some e\<rparr>
      | Docx body \<Rightarrow>
          (let document_analysis =
                 \<lparr>document_type = dt, issues_found = [], compliance_score = 100,
                  total_flags = Some 0, critical_issues = Some 0, warnings = Some 0,
                  compliance_status = None, error = None\<rparr>;
               paragraphs_data = extract_paragraphs_data (paragraphs body);
               issues = pattern_scan red_flags rag paragraphs_data;
               additional_issues = perform_additional_checks rag paragraphs_data dt
           in calculate_compliance_metrics
                (document_analysis\<lparr>issues_found := issues @ additional_issues\<rparr>)))"

text \<open>An issue with its guidance field blanked.\<close>

definition erase_guidance :: "issue \<Rightarrow> issue" where
  "erase_guidance i = i\<lparr>rag_guidance := None\<rparr>"

section \<open>The classifier and the checklist engine (document\_classifier.py, config.py)\<close>

text \<open>\<^verbatim>\<open>DOCUMENT_TYPE_MAPPINGS\<close> and \<^verbatim>\<open>PROCESS_CHECKLISTS\<close>, in the order written.\<close>

definition DOCUMENT_TYPE_MAPPINGS :: "(string \<times> string list) list" where
  "DOCUMENT_TYPE_MAPPINGS =
    [(''memorandum_of_association'',
        [''memorandum of association'', ''memorandum_of_association'', ''moa'', ''memorandum'']),
     (''articles_of_association'',
        [''articles of association'', ''articles_of_association'', ''aoa'', ''articles'']),
     (''board_resolution'',
        [''board resolution'', ''board_resolution'', ''resolution'', ''board'', ''directors resolution'']),
     (''shareholder_resolution'',
        [''shareholder resolution'', ''shareholders resolution'', ''member resolution'']),
     (''incorporation_form'',
        [''incorporation'', ''application form'', ''registration form'', ''incorporation_form'']),
     (''ubo_declaration'',
        [''ubo'', ''ubo_form'', ''ultimate beneficial owner'', ''beneficial owner'', ''declaration'']),
     (''register_members'',
        [''register of members'', ''members register'', ''register of directors'', ''directors register'']),
     (''employment_contract'',
        [''employment contract'', ''employment agreement'', ''contract of employment'']),
     (''data_protection_policy'',
        [''data protection'', ''privacy policy'', ''data policy'']),
     (''annual_accounts'',
        [''annual accounts'', ''financial statements'', ''accounts'']),
     (''company_checklist'',
        [''checklist'', ''setup checklist'', ''incorporation checklist''])]"

record checklist =
  required_documents :: "string list option"
  optional_documents :: "string list option"

definition PROCESS_CHECKLISTS :: "(string \<times> checklist) list" where
  "PROCESS_CHECKLISTS =
    [(''Company Incorporation'',
        \<lparr>required_documents = Some
           [''Memorandum of Association'', ''Articles of Association'',
            ''Incorporation Application Form'', ''UBO Declaration Form'',
            ''Register of Members and Directors''],
         optional_documents = Some
           [''Board Resolution for Incorporation'', ''Shareholder Resolution'']\<rparr>),
     (''Private Company Limited'',
        \<lparr>required_documents = Some
           [''Memorandum of Association'', ''Articles of Association'', ''Application Form'',
            ''Register of Members'', ''Register of Directors'', ''UBO Declaration''],
         optional_documents = None\<rparr>),
     (''Employment Setup'',
        \<lparr>required_documents = Some [''Employment Contract'', ''Data Protection Policy''],
         optional_documents = None\<rparr>),
     (''Annual Compliance'',
        \<lparr>required_documents = Some [''Annual Accounts'', ''Annual Return''],
         optional_documents = None\<rparr>)]"

text \<open>
  \<open>extract_text_from_docx\<close>: the paragraph texts, then the cell texts of the tables, joined
  by blanks and lower-cased; the empty string when the file cannot be opened.
\<close>

definition extract_text_from_docx :: "docx_file \<Rightarrow> string" where
  "extract_text_from_docx f =
     (case f of
        Unreadable e \<Rightarrow> []
      | Docx body \<Rightarrow>
          lower (join '' '' (map p_text (paragraphs body) @ concat (map concat (tables body)))))"

text \<open>
  The filename phase. For one document type the loop over its keywords keeps the largest
  \<^verbatim>\<open>len(keyword.replace(" ", ""))\<close> among the keywords that occur in the file name,
  and the first keyword that reached it.
\<close>

definition keyword_score :: "string \<Rightarrow> nat" where
  "keyword_score keyword = length (filter (\<lambda>c. c \<noteq> CHR '' '') keyword)"

fun filename_keywords :: "string \<Rightarrow> string list \<Rightarrow> nat \<times> string \<Rightarrow> nat \<times> string" where
  "filename_keywords filename_lower [] (score, best_match) = (score, best_match)"
| "filename_keywords filename_lower (keyword # keywords) (score, best_match) =
     (if str_in keyword filename_lower \<and> keyword_score keyword > score
      then filename_keywords filename_lower keywords (keyword_score keyword, keyword)
      else filename_keywords filename_lower keywords (score, best_match))"

text \<open>\<^verbatim>\<open>max(d, key=...)\<close> over a non-empty dictionary: the first key of the largest value.\<close>

fun first_max :: "'k \<times> nat \<Rightarrow> ('k \<times> nat) list \<Rightarrow> 'k \<times> nat" where
  "first_max best [] = best"
| "first_max (bk, bv) ((k, v) # kvs) =
     (if v > bv then first_max (k, v) kvs else first_max (bk, bv) kvs)"

definition max_key :: "('k \<times> nat) list \<Rightarrow> ('k \<times> nat) option" where
  "max_key scores = (case scores of [] \<Rightarrow> None | kv # kvs \<Rightarrow> Some (first_max kv kvs))"

definition classify_by_filename :: "(string \<times> string list) list \<Rightarrow> string \<Rightarrow> string option" where
  "classify_by_filename document_mappings filename =
     (let filename_lower = lower filename;
          scores = map (\<lambda>(doc_type, keywords).
                          (doc_type, fst (filename_keywords filename_lower keywords (0, []))))
                       document_mappings
      in case max_key scores of
           None \<Rightarrow> None
         | Some (best_doc_type, score) \<Rightarrow> if score > 0 then Some best_doc_type else None)"

text \<open>
  The content phase counts \<^verbatim>\<open>re.findall(r'\b' + re.escape(keyword) + r'\b', text)\<close>:
  the matches of the keyword between two word boundaries, found from left to right
  without overlap. A word character is a letter, a digit or the underscore.
\<close>

definition is_word_char :: "char \<Rightarrow> bool" where
  "is_word_char c = (c \<in> set (ascii_uppercase @ ascii_lowercase @ ''0123456789_''))"

definition word_boundary :: "char option \<Rightarrow> char option \<Rightarrow> bool" where
  "word_boundary prev nxt =
     ((case prev of None \<Rightarrow> False | Some c \<Rightarrow> is_word_char c)
      \<noteq> (case nxt of None \<Rightarrow> False | Some c \<Rightarrow> is_word_char c))"

definition first_char :: "string \<Rightarrow> char option" where
  "first_char s = (case s of [] \<Rightarrow> None | c # cs \<Rightarrow> Some c)"

definition match_here :: "string \<Rightarrow> char option \<Rightarrow> string \<Rightarrow> bool" where
  "match_here keyword prev s =
     (prefix keyword s
      \<and> word_boundary prev (first_char s)
      \<and> word_boundary (if keyword = [] then prev else Some (last keyword))
            (first_char (drop (length keyword) s)))"

function count_matches :: "string \<Rightarrow> char option \<Rightarrow> string \<Rightarrow> nat" where
  "count_matches keyword prev s =
     (if match_here keyword prev s then
        (if keyword = [] then
           (case s of [] \<Rightarrow> 1 | c # cs \<Rightarrow> 1 + count_matches keyword (Some c) cs)
         else 1 + count_matches keyword (Some (last keyword)) (drop (length keyword) s))
      else (case s of [] \<Rightarrow> 0 | c # cs \<Rightarrow> count_matches keyword (Some c) cs))"
  by pat_completeness auto
termination
  by (relation "measure (\<lambda>(keyword, prev, s). length s)")
     (auto simp: match_here_def prefix_def)

definition content_score :: "string \<Rightarrow> string list \<Rightarrow> nat" where
  "content_score text_content keywords =
     sum_list (map (\<lambda>keyword. count_matches keyword None text_content) keywords)"

text \<open>The phrase checks that follow an all-zero content score, in their fixed order.\<close>

definition content_fallback :: "string \<Rightarrow> string" where
  "content_fallback text_content =
     (if str_in ''articles of association'' text_content
         \<or> str_in ''company constitution'' text_content
        then ''articles_of_association''
      else if str_in ''memorandum of association'' text_content
         \<or> str_in ''company objects'' text_content
        then ''memorandum_of_association''
      else if str_in ''board of directors'' text_content \<and> str_in ''resolution'' text_content
        then ''board_resolution''
      else if str_in ''shareholders'' text_content \<and> str_in ''resolution'' text_content
        then ''shareholder_resolution''
      else if str_in ''ultimate beneficial owner'' text_content \<or> str_in ''ubo'' text_content
        then ''ubo_declaration''
      else if str_in ''employment'' text_content
         \<and> (str_in ''contract'' text_content \<or> str_in ''agreement'' text_content)
        then ''employment_contract''
      else ''unknown'')"

definition classify_document_type ::
  "(string \<times> string list) list \<Rightarrow> docx_file \<Rightarrow> string \<Rightarrow> string" where
  "classify_document_type document_mappings f filename =
     (case classify_by_filename document_mappings filename of
        Some best_doc_type \<Rightarrow> best_doc_type
      | None \<Rightarrow>
         (let text_content = extract_text_from_docx f in
          if text_content = [] then ''unknown''
          else
            (case max_key (map (\<lambda>(doc_type, keywords).
                                  (doc_type, content_score text_content keywords))
                               document_mappings) of
               Some (best_match, score) \<Rightarrow>
                 if score > 0 then best_match else content_fallback text_content
             | None \<Rightarrow> content_fallback text_content)))"

text \<open>\<^verbatim>\<open>s.replace("_", " ").title()\<close>.\<close>

definition underscores_to_spaces :: "string \<Rightarrow> string" where
  "underscores_to_spaces s = map (\<lambda>c. if c = CHR ''_'' then CHR '' '' else c) s"

fun title_from :: "bool \<Rightarrow> string \<Rightarrow> string" where
  "title_from previous_is_cased [] = []"
| "title_from previous_is_cased (c # cs) =
     (if is_alpha c
      then (if previous_is_cased then lower_char c else upper_char c) # title_from True cs
      else c # title_from False cs)"

definition title :: "string \<Rightarrow> string" where
  "title s = title_from False s"

definition convert_doc_type_to_readable :: "string \<Rightarrow> string" where
  "convert_doc_type_to_readable doc_type =
     (case map_of
        [(''articles_of_association'', ''Articles of Association''),
         (''memorandum_of_association'', ''Memorandum of Association''),
         (''board_resolution'', ''Board Resolution''),
         (''shareholder_resolution'', ''Shareholder Resolution''),
         (''incorporation_form'', ''Incorporation Application Form''),
         (''ubo_declaration'', ''UBO Declaration Form''),
         (''register_members'', ''Register of Members and Directors''),
         (''employment_contract'', ''Employment Contract''),
         (''data_protection_policy'', ''Data Protection Policy''),
         (''annual_accounts'', ''Annual Accounts'')] doc_type of
        Some readable \<Rightarrow> readable
      | None \<Rightarrow> title (underscores_to_spaces doc_type))"

definition documents_match :: "string \<Rightarrow> string \<Rightarrow> bool" where
  "documents_match doc1 doc2 =
     (let doc1_lower = lower doc1; doc2_lower = lower doc2 in
      if doc1_lower = doc2_lower then True
      else if str_in ''articles'' doc1_lower \<and> str_in ''articles'' doc2_lower then True
      else if str_in ''memorandum'' doc1_lower \<and> str_in ''memorandum'' doc2_lower then True
      else if str_in ''resolution'' doc1_lower \<and> str_in ''resolution'' doc2_lower then True
      else if str_in ''ubo'' doc1_lower
              \<and> (str_in ''ubo'' doc2_lower \<or> str_in ''beneficial owner'' doc2_lower) then True
      else if str_in ''register'' doc1_lower \<and> str_in ''register'' doc2_lower then True
      else if str_in ''incorporation'' doc1_lower
              \<and> (str_in ''incorporation'' doc2_lower \<or> str_in ''application'' doc2_lower) then True
      else False)"

definition required_docs_of :: "checklist \<Rightarrow> string list" where
  "required_docs_of c = (case required_documents c of None \<Rightarrow> [] | Some docs \<Rightarrow> docs)"

text \<open>
  \<open>detect_process_type\<close>: a process scores one point for every uploaded type that
  matches one of its required documents; the first process of the largest score wins,
  if that score is positive.
\<close>

definition detect_process_type :: "(string \<times> checklist) list \<Rightarrow> string list \<Rightarrow> string" where
  "detect_process_type process_checklists document_types =
     (let process_scores =
            map (\<lambda>(process_name, c).
                   (process_name,
                    length (filter (\<lambda>doc_type.
                              list_ex (documents_match (convert_doc_type_to_readable doc_type))
                                (required_docs_of c))
                            document_types)))
                process_checklists
      in case max_key process_scores of
           Some (best_process, score) \<Rightarrow> if score > 0 then best_process else ''Unknown Process''
         | None \<Rightarrow> ''Unknown Process'')"

text \<open>
  Python floats. A float is an IEEE double; here it is the rational number it stands for.
  \<open>fl x\<close> is the double nearest to \<open>x\<close>: the significand has 53 bits and a tie goes
  to the even one (the quotients of list lengths neither underflow nor overflow).
  Division and multiplication of floats are the exact operations followed by \<open>fl\<close>.
\<close>

function bit_length :: "int \<Rightarrow> int" where
  "bit_length i = (if i \<le> 0 then 0 else 1 + bit_length (i div 2))"
  by pat_completeness auto
termination
  by (relation "measure nat") auto

definition pow2 :: "int \<Rightarrow> rat" where
  "pow2 e = (if 0 \<le> e then 2 ^ nat e else 1 / 2 ^ nat (- e))"

definition round_half_even :: "rat \<Rightarrow> int" where
  "round_half_even y =
     (let n = \<lfloor>y\<rfloor>; d = y - of_int n
      in if d < 1 / 2 then n else if 1 / 2 < d then n + 1 else if even n then n else n + 1)"

text \<open>
  The exponent \<open>e\<close> with \<open>2 ^ 52 \<le> x / 2 ^ e < 2 ^ 53\<close>, for a positive \<open>x\<close>: the
  bit lengths of numerator and denominator give it up to one.
\<close>

definition choose_exponent :: "rat \<Rightarrow> int \<Rightarrow> int" where
  "choose_exponent x e = (if x / pow2 e < 2 ^ 53 then e else e + 1)"

definition float_exponent :: "rat \<Rightarrow> int" where
  "float_exponent x =
     (case quotient_of x of (p, q) \<Rightarrow> choose_exponent x (bit_length p - bit_length q - 53))"

definition round_at_exponent :: "rat \<Rightarrow> int \<Rightarrow> rat" where
  "round_at_exponent x e = of_int (round_half_even (x / pow2 e)) * pow2 e"

definition fl :: "rat \<Rightarrow> rat" where
  "fl x =
     (if x = 0 then 0
      else if x < 0 then - round_at_exponent (- x) (float_exponent (- x))
      else round_at_exponent x (float_exponent x))"

definition float_div :: "rat \<Rightarrow> rat \<Rightarrow> rat" where
  "float_div a b = fl (a / b)"

definition float_mul :: "rat \<Rightarrow> rat \<Rightarrow> rat" where
  "float_mul a b = fl (a * b)"

text \<open>
  \<^verbatim>\<open>round(x, 1)\<close> of a float: the exact value of \<open>x\<close> is rounded to one decimal, a tie
  to the even digit, and the result is the double nearest to that decimal. (Of the
  integer 100 it is the integer 100, the same number.)
\<close>

definition float_round1 :: "rat \<Rightarrow> rat" where
  "float_round1 x = fl (of_int (round_half_even (x * 10)) / 10)"

text \<open>
  The report dictionary of \<open>generate_checklist_report\<close>. The report for an unknown process
  has neither the number of required documents nor the list of found ones.
\<close>

record checklist_report =
  process :: string
  status :: string
  uploaded_documents :: int
  required_count :: "int option"
  found_documents :: "string list option"
  missing_documents :: "string list"
  completeness_percentage :: rat

text \<open>
  The loop over the required documents: a required document that some uploaded
  document matches is appended to the found ones, any other to the missing ones.
\<close>

fun checklist_loop ::
  "string list \<Rightarrow> string list \<Rightarrow> string list \<times> string list \<Rightarrow> string list \<times> string list" where
  "checklist_loop uploaded_readable [] (missing_docs, found_docs) = (missing_docs, found_docs)"
| "checklist_loop uploaded_readable (required_doc # required_docs) (missing_docs, found_docs) =
     (if list_ex (\<lambda>uploaded_doc. documents_match uploaded_doc required_doc) uploaded_readable
      then checklist_loop uploaded_readable required_docs (missing_docs, found_docs @ [required_doc])
      else checklist_loop uploaded_readable required_docs (missing_docs @ [required_doc], found_docs))"

definition generate_checklist_report ::
  "(string \<times> checklist) list \<Rightarrow> string list \<Rightarrow> string \<Rightarrow> checklist_report" where
  "generate_checklist_report process_checklists document_types process_type =
     (case map_of process_checklists process_type of
        None \<Rightarrow>
          \<lparr>process = process_type,
           status = ''Unknown process type'',
           uploaded_documents = int (length document_types),
           required_count = None,
           found_documents = None,
           missing_documents = [],
           completeness_percentage = 0\<rparr>
      | Some c \<Rightarrow>
          (let required_docs = required_docs_of c;
               uploaded_readable = map convert_doc_type_to_readable document_types;
               (missing_docs, found_docs) = checklist_loop uploaded_readable required_docs ([], []);
               completeness =
                 (if required_docs \<noteq> []
                  then float_mul
                         (float_div (of_nat (length found_docs)) (of_nat (length required_docs)))
                         100
                  else 100)
           in \<lparr>process = process_type,
               status = (if missing_docs = [] then ''Complete'' else ''Incomplete''),
               uploaded_documents = int (length document_types),
               required_count = Some (int (length required_docs)),
               found_documents = Some found_docs,
               missing_documents = missing_docs,
               completeness_percentage = float_round1 completeness\<rparr>))"

section \<open>The annotated copy (document\_processor.py)\<close>

text \<open>
  What a run takes from outside: the two readings of the clock, and the order in which
  Python iterates over the set of the flag kinds of the summary.
\<close>

record environment =
  header_date :: string
  summary_date :: string
  set_order :: "string list \<Rightarrow> string list"

definition nl :: string where
  "nl = [CHR 0x0A]"

text \<open>
  \<^verbatim>\<open>doc.add_paragraph()\<close> puts the new paragraph before the section properties of the
  body, or at the end of a body without them; \<open>add_position\<close> is where it lands.
\<close>

definition add_position :: "block list \<Rightarrow> nat" where
  "add_position body = length (takeWhile (\<lambda>b. b \<noteq> SectPr) body)"

definition add_paragraph :: "block list \<Rightarrow> para \<Rightarrow> block list" where
  "add_paragraph body p =
     take (add_position body) body @ [Para p] @ drop (add_position body) body"

text \<open>
  \<^verbatim>\<open>parent.insert(index, child)\<close> for a child that is already at position \<open>pos\<close> of
  the parent: the child is moved in front of the child found at \<open>index\<close> (a negative
  index counts from the end), and to the end when there is none.
\<close>

definition find_child :: "'a list \<Rightarrow> int \<Rightarrow> nat option" where
  "find_child xs i =
     (let n = int (length xs) in
      if 0 \<le> i then (if i < n then Some (nat i) else None)
      else (if - i \<le> n then Some (nat (n + i)) else None))"

definition move_child :: "'a list \<Rightarrow> nat \<Rightarrow> int \<Rightarrow> 'a list" where
  "move_child xs pos i =
     (let others = take pos xs @ drop (Suc pos) xs in
      case find_child xs i of
        None \<Rightarrow> others @ [xs ! pos]
      | Some target \<Rightarrow>
          if target = pos then xs
          else (let target' = (if pos < target then target - 1 else target)
                in take target' others @ [xs ! pos] @ drop target' others))"

text \<open>The paragraph number \<open>k\<close> of the body, changed by \<open>f\<close>.\<close>

fun update_paragraph :: "block list \<Rightarrow> nat \<Rightarrow> (para \<Rightarrow> para) \<Rightarrow> block list" where
  "update_paragraph [] k f = []"
| "update_paragraph (Para p # bs) 0 f = Para (f p) # bs"
| "update_paragraph (Para p # bs) (Suc k) f = Para p # update_paragraph bs k f"
| "update_paragraph (b # bs) k f = b # update_paragraph bs k f"

definition get_int :: "int option \<Rightarrow> int" where
  "get_int v = (case v of None \<Rightarrow> 0 | Some n \<Rightarrow> n)"

definition get_status :: "string option \<Rightarrow> string" where
  "get_status v = (case v of None \<Rightarrow> ''Unknown'' | Some s \<Rightarrow> s)"

definition review_header_text :: "environment \<Rightarrow> analysis \<Rightarrow> string" where
  "review_header_text env a =
     nl @ ''Document Type: '' @ document_type a @ nl
     @ ''Compliance Score: '' @ str_int (compliance_score a) @ ''/100'' @ nl
     @ ''Total Issues Found: '' @ str_int (get_int (total_flags a)) @ nl
     @ ''Critical Issues: '' @ str_int (get_int (critical_issues a)) @ nl
     @ ''Warnings: '' @ str_int (get_int (warnings a)) @ nl
     @ ''Status: '' @ get_status (compliance_status a) @ nl
     @ nl
     @ ''Review Date: '' @ header_date env @ nl
     @ ''Generated by: ADGM Compliance Assistant'' @ nl
     @ nl"

text \<open>
  \<open>_add_review_header\<close>: \<^verbatim>\<open>doc.paragraphs[0]\<close> raises on a document without
  paragraphs; otherwise an empty paragraph is inserted as the first child of the body
  and becomes the title, and three paragraphs are added at the end.
\<close>

definition add_review_header :: "environment \<Rightarrow> block list \<Rightarrow> analysis \<Rightarrow> block list option" where
  "add_review_header env body a =
     (if paragraphs body = [] then None
      else
        (let header = (plain ''=== ADGM COMPLIANCE REVIEW ==='')
                        \<lparr>p_bold := True, p_size := Some 240000, p_rgb := Some (255, 0, 0)\<rparr>;
             body = Para header # body;
             body = add_paragraph body ((plain (review_header_text env a))\<lparr>p_size := Some 200000\<rparr>);
             body = add_paragraph body (plain (replicate 80 (CHR ''='')));
             body = add_paragraph body (plain [])
         in Some body))"

text \<open>\<open>_highlight_paragraph\<close> sets the colour on every run: a paragraph without runs keeps none.\<close>

definition highlight_paragraph :: "string \<Rightarrow> para \<Rightarrow> para" where
  "highlight_paragraph sev p =
     (if p_runs p = 0 then p
      else p\<lparr>p_highlight :=
             Some (case map_of [(''High'', RED), (''Medium'', YELLOW), (''Low'', BRIGHT_GREEN)] sev of
                     Some highlight_color \<Rightarrow> highlight_color
                   | None \<Rightarrow> YELLOW)\<rparr>)"

definition format_comment :: "issue \<Rightarrow> string" where
  "format_comment i =
     nl @ [CHR 0xF0, CHR 0x9F, CHR 0x9A, CHR 0xA8] @ '' COMPLIANCE ISSUE - '' @ severity i
        @ '' Severity'' @ nl
     @ nl
     @ ''Issue: '' @ issue_text i @ nl
     @ ''Found Pattern: '' @ (case pattern_found i of None \<Rightarrow> ''N/A'' | Some pat \<Rightarrow> pat) @ nl
     @ ''Suggestion: '' @ suggestion i @ nl
     @ ''ADGM Reference: '' @ adgm_reference i @ nl
     @ nl
     @ (case rag_guidance i of
          None \<Rightarrow> []
        | Some g \<Rightarrow> if g = [] then [] else ''Detailed Guidance:'' @ nl @ g @ nl)
     @ replicate 50 (CHR ''-'') @ nl"

text \<open>
  \<open>_add_comment_paragraph\<close>: the comment is added at the end and then moved in front of
  the child \<open>insert_index\<close> of the body, when \<open>insert_index\<close> is below the number of
  paragraphs less one.
\<close>

definition add_comment_paragraph :: "block list \<Rightarrow> int \<Rightarrow> string \<Rightarrow> string \<Rightarrow> block list" where
  "add_comment_paragraph body insert_index comment_text sev =
     (let new_para = (plain comment_text)
            \<lparr>p_italic := True, p_size := Some 180000,
             p_rgb := Some (if sev = ''High'' then (220, 20, 60)
                            else if sev = ''Medium'' then (255, 140, 0)
                            else (70, 130, 180))\<rparr>;
          pos = add_position body;
          body = add_paragraph body new_para
      in if insert_index < int (length (paragraphs body)) - 1
         then move_child body pos insert_index
         else body)"

text \<open>
  The loop of \<open>_create_reviewed_document\<close> over the issues. \<^verbatim>\<open>doc.paragraphs[i]\<close> is
  Python indexing: a negative index counts from the end, and an index below minus the
  length raises, which ends the function without a document.
\<close>

fun annotate_issues :: "block list \<Rightarrow> issue list \<Rightarrow> block list option" where
  "annotate_issues body [] = Some body"
| "annotate_issues body (i # issues) =
     (let n = int (length (paragraphs body)); idx = paragraph_index i in
      if idx < n then
        (if idx < - n then None
         else
           (let k = nat (if idx < 0 then n + idx else idx);
                body = update_paragraph body k (highlight_paragraph (severity i));
                body = add_comment_paragraph body (idx + 1) (format_comment i) (severity i)
            in annotate_issues body issues))
      else annotate_issues body issues)"

definition category_line :: "issue list \<Rightarrow> string \<Rightarrow> string" where
  "category_line issues ft =
     ''- '' @ title (underscores_to_spaces ft) @ '': ''
     @ str_int (int (length (filter (\<lambda>i. flag_type i = ft) issues))) @ '' issue(s)'' @ nl"

definition compliance_summary_text :: "environment \<Rightarrow> analysis \<Rightarrow> string" where
  "compliance_summary_text env a =
     nl @ ''Overall Compliance Score: '' @ str_int (compliance_score a) @ ''/100'' @ nl
     @ ''Compliance Status: '' @ get_status (compliance_status a) @ nl
     @ nl
     @ ''Issues Breakdown:'' @ nl
     @ ''- Critical Issues (High): '' @ str_int (get_int (critical_issues a)) @ nl
     @ ''- Warnings (Medium): '' @ str_int (get_int (warnings a)) @ nl
     @ ''- Total Issues: '' @ str_int (get_int (total_flags a)) @ nl
     @ nl
     @ (if issues_found a = [] then []
        else ''Issue Categories Found:'' @ nl
             @ concat (map (category_line (issues_found a))
                        (set_order env (map flag_type (issues_found a)))))
     @ nl @ ''Next Steps:'' @ nl
     @ ''1. Address all critical (High severity) issues immediately'' @ nl
     @ ''2. Review and resolve warning (Medium severity) issues'' @ nl
     @ ''3. Ensure all required documents are uploaded for the process'' @ nl
     @ ''4. Re-submit for review after making corrections'' @ nl
     @ nl
     @ ''Review completed on: '' @ summary_date env @ nl"

definition add_compliance_summary :: "environment \<Rightarrow> block list \<Rightarrow> analysis \<Rightarrow> block list" where
  "add_compliance_summary env body a =
     (let body = add_paragraph body (plain []);
          body = add_paragraph body (plain (replicate 80 (CHR ''='')));
          body = add_paragraph body
                   ((plain ''COMPLIANCE REVIEW SUMMARY'')
                      \<lparr>p_bold := True, p_size := Some 220000, p_rgb := Some (0, 0, 139)\<rparr>);
          body = add_paragraph body
                   ((plain (compliance_summary_text env a))\<lparr>p_size := Some 200000\<rparr>)
      in body)"

text \<open>
  \<open>_create_reviewed_document\<close>: the document that is saved, or \<open>None\<close> when an
  exception ended the function (it then returns the empty path).
\<close>

definition create_reviewed_document ::
  "environment \<Rightarrow> docx_file \<Rightarrow> analysis \<Rightarrow> block list option" where
  "create_reviewed_document env f a =
     (case f of
        Unreadable e \<Rightarrow> None
      | Docx body \<Rightarrow>
          (case add_review_header env body a of
             None \<Rightarrow> None
           | Some body \<Rightarrow>
               (case annotate_issues body (issues_found a) of
                  None \<Rightarrow> None
                | Some body \<Rightarrow> Some (add_compliance_summary env body a))))"

text \<open>
  \<open>round(x, 1)\<close> as the specification writes it, of an exact number.
\<close>

definition round1 :: "rat \<Rightarrow> rat" where
  "round1 x = of_int (round_half_even (x * 10)) / 10"

text \<open>
  The file name decides: some keyword of the type table with at least one non-blank
  character occurs in the lower-cased file name. The longest such keyword of one document
  type, measured without blanks (0 when there is none).
\<close>

definition filename_hit :: "(string \<times> string list) list \<Rightarrow> string \<Rightarrow> bool" where
  "filename_hit document_mappings filename =
     list_ex (\<lambda>(doc_type, kws).
                list_ex (\<lambda>keyword. str_in keyword (lower filename) \<and> 0 < keyword_score keyword) kws)
       document_mappings"

definition longest_match :: "string \<Rightarrow> string list \<Rightarrow> nat" where
  "longest_match filename_lower kws =
     fold max (map keyword_score (filter (\<lambda>keyword. str_in keyword filename_lower) kws)) 0"

text \<open>Some uploaded document type, in its readable form, matches a required document.\<close>

definition uploaded_matches :: "string list \<Rightarrow> string \<Rightarrow> bool" where
  "uploaded_matches document_types required_doc =
     list_ex (\<lambda>doc_type. documents_match (convert_doc_type_to_readable doc_type) required_doc)
       document_types"

text \<open>
  The excerpt of a paragraph text: the text itself up to 200 characters, otherwise its
  first 200 characters followed by three dots. An issue of the pattern scan carries the
  excerpt of the paragraph its index names; a structural issue carries a fixed text.
\<close>

definition excerpt_of :: "string \<Rightarrow> string" where
  "excerpt_of t = (if length t \<le> 200 then t else take 200 t @ ''...'')"

definition excerpt_from :: "para list \<Rightarrow> issue \<Rightarrow> bool" where
  "excerpt_from ps i =
     (case pattern_found i of
        None \<Rightarrow>
          paragraph_text i \<in> set [''End of document'', ''Document structure'',
                                  ''Document content'', ''Contract terms'']
      | Some pat \<Rightarrow>
          0 \<le> paragraph_index i \<and> nat (paragraph_index i) < length ps
          \<and> paragraph_text i = excerpt_of (p_text (ps ! nat (paragraph_index i))))"

text \<open>
  The order of the pattern scan: the position of a flag kind in the table, and the
  relation "earlier flag kind, or the same flag kind and no later paragraph". The
  type-specific checks of a document type, in the order they are declared.
\<close>

definition flag_position :: "(string \<times> flag_config) list \<Rightarrow> string \<Rightarrow> nat" where
  "flag_position red_flags ft = length (takeWhile (\<lambda>(k, cfg). k \<noteq> ft) red_flags)"

definition scan_before :: "(string \<times> flag_config) list \<Rightarrow> issue \<Rightarrow> issue \<Rightarrow> bool" where
  "scan_before red_flags a b =
     (flag_position red_flags (flag_type a) < flag_position red_flags (flag_type b)
      \<or> (flag_type a = flag_type b \<and> paragraph_index a \<le> paragraph_index b))"

definition declared_checks :: "string \<Rightarrow> (string \<times> string) list" where
  "declared_checks dt =
     (if dt = ''articles_of_association'' then articles_required_sections
      else if dt = ''memorandum_of_association'' then memorandum_required_elements
      else if dt = ''employment_contract'' then employment_required_clauses
      else [])"

section \<open>Scorer properties\<close>

lemma length_filter_count_list:
  "length (filter (\<lambda>i. f i = s) xs) = count_list (map f xs) s"
  by (induction xs) auto

lemma metrics_score:
  "compliance_score (calculate_compliance_metrics a) =
     max 0 (100 - 20 * count_severity ''High'' (issues_found a)
                - 10 * count_severity ''Medium'' (issues_found a))"
  by (simp add: calculate_compliance_metrics_def Let_def count_severity_def
      length_filter_count_list)

lemma metrics_status:
  "compliance_status (calculate_compliance_metrics a) =
     Some (get_compliance_status (compliance_score (calculate_compliance_metrics a)))"
  by (simp add: calculate_compliance_metrics_def Let_def)

lemma count_severity_drop_low:
  "s \<noteq> ''Low'' \<Longrightarrow>
     count_severity s (filter (\<lambda>i. severity i \<noteq> ''Low'') issues) = count_severity s issues"
  by (induction issues) (auto simp: count_severity_def)

lemma count_severity_append:
  "count_severity s (xs @ ys) = count_severity s xs + count_severity s ys"
  by (induction xs) (auto simp: count_severity_def)

lemma count_severity_nonneg: "0 \<le> count_severity s xs"
  by (simp add: count_severity_def)

text \<open>
  C2. The score is \<open>max(0, 100 - 20 * #High - 10 * #Medium)\<close> over the integers; issues of
  severity Low deduct nothing (dropping them leaves the score unchanged); and the status
  is Compliant exactly from 90, Minor Issues exactly on [70, 90), Major Issues exactly on
  [50, 70) and Non-Compliant exactly below 50.
\<close>

theorem C2_score_formula_and_status_bands:
  "compliance_score (calculate_compliance_metrics a) =
     max 0 (100 - 20 * count_severity ''High'' (issues_found a)
                - 10 * count_severity ''Medium'' (issues_found a))
   \<and> compliance_score (calculate_compliance_metrics
        (a\<lparr>issues_found := filter (\<lambda>i. severity i \<noteq> ''Low'') (issues_found a)\<rparr>))
      = compliance_score (calculate_compliance_metrics a)
   \<and> (compliance_status (calculate_compliance_metrics a) = Some ''Compliant'')
      = (90 \<le> compliance_score (calculate_compliance_metrics a))
   \<and> (compliance_status (calculate_compliance_metrics a) = Some ''Minor Issues'')
      = (70 \<le> compliance_score (calculate_compliance_metrics a)
         \<and> compliance_score (calculate_compliance_metrics a) < 90)
   \<and> (compliance_status (calculate_compliance_metrics a) = Some ''Major Issues'')
      = (50 \<le> compliance_score (calculate_compliance_metrics a)
         \<and> compliance_score (calculate_compliance_metrics a) < 70)
   \<and> (compliance_status (calculate_compliance_metrics a) = Some ''Non-Compliant'')
      = (compliance_score (calculate_compliance_metrics a) < 50)"
proof -
  have low: "compliance_score (calculate_compliance_metrics
        (a\<lparr>issues_found := filter (\<lambda>i. severity i \<noteq> ''Low'') (issues_found a)\<rparr>))
      = compliance_score (calculate_compliance_metrics a)"
    by (simp add: metrics_score count_severity_drop_low)
  have bands: "(get_compliance_status s = ''Compliant'') = (90 \<le> s)
      \<and> (get_compliance_status s = ''Minor Issues'') = (70 \<le> s \<and> s < 90)
      \<and> (get_compliance_status s = ''Major Issues'') = (50 \<le> s \<and> s < 70)
      \<and> (get_compliance_status s = ''Non-Compliant'') = (s < 50)" for s
    by (simp add: get_compliance_status_def)
  show ?thesis
    using low bands [of "compliance_score (calculate_compliance_metrics a)"]
    by (simp only: metrics_score [symmetric] metrics_status option.inject simp_thms)
qed

section \<open>Range, monotonicity and independence of the guidance\<close>


lemma score_range: "0 \<le> compliance_score (calculate_compliance_metrics a) \<and> compliance_score (calculate_compliance_metrics a) \<le> 100"
  using count_severity_nonneg [of "''High''" "issues_found a"]
        count_severity_nonneg [of "''Medium''" "issues_found a"]
  by (simp add: metrics_score)

lemma analyze_score:
  "compliance_score (analyze_document red_flags rag doc dt) =
     (case doc of Unreadable e \<Rightarrow> 0
      | Docx body \<Rightarrow> max 0 (100 - 20 * count_severity ''High'' (issues_found (analyze_document red_flags rag doc dt))
           - 10 * count_severity ''Medium'' (issues_found (analyze_document red_flags rag doc dt))))"
  by (cases doc) (simp_all add: analyze_document_def Let_def metrics_score, simp add: calculate_compliance_metrics_def Let_def)

text \<open>
  C5. The score of every analysis lies in [0, 100], for a readable document and for an
  unreadable one, and appending one more issue of any severity to an issue list never
  raises the score.
\<close>

theorem C5_score_range_and_monotone:
  "0 \<le> compliance_score (analyze_document red_flags rag doc dt)
   \<and> compliance_score (analyze_document red_flags rag doc dt) \<le> 100
   \<and> 0 \<le> compliance_score (calculate_compliance_metrics a)
   \<and> compliance_score (calculate_compliance_metrics a) \<le> 100
   \<and> compliance_score (calculate_compliance_metrics (a\<lparr>issues_found := issues_found a @ [i]\<rparr>))
       \<le> compliance_score (calculate_compliance_metrics a)"
proof -
  have doc: "0 \<le> compliance_score (analyze_document red_flags rag doc dt)
     \<and> compliance_score (analyze_document red_flags rag doc dt) \<le> 100"
  proof (cases doc)
    case (Unreadable e)
    then show ?thesis by (simp add: analyze_document_def)
  next
    case (Docx body)
    then show ?thesis
      using score_range by (simp add: analyze_document_def Let_def)
  qed
  have mono: "compliance_score (calculate_compliance_metrics (a\<lparr>issues_found := issues_found a @ [i]\<rparr>))
       \<le> compliance_score (calculate_compliance_metrics a)"
    using count_severity_nonneg [of "''High''" "[i]"] count_severity_nonneg [of "''Medium''" "[i]"]
    by (simp add: metrics_score count_severity_append)
  show ?thesis using doc mono score_range by simp
qed

lemma erase_pattern_issue:
  "erase_guidance (pattern_issue rag ft cfg pd p) = pattern_issue (\<lambda>d t. None) ft cfg pd p"
  by (simp add: pattern_issue_def erase_guidance_def)

lemma erase_detect:
  "map erase_guidance (detect_flag_in_paragraphs rag pds ft cfg) =
     detect_flag_in_paragraphs (\<lambda>d t. None) pds ft cfg"
  by (simp add: detect_flag_in_paragraphs_def map_concat comp_def erase_pattern_issue)

lemma erase_pattern_scan:
  "map erase_guidance (pattern_scan red_flags rag pds) = pattern_scan red_flags (\<lambda>d t. None) pds"
  by (induction red_flags) (auto simp: pattern_scan_def erase_detect)

lemma erase_additional:
  "map erase_guidance (perform_additional_checks rag pds dt) = perform_additional_checks (\<lambda>d t. None) pds dt"
  by (simp add: perform_additional_checks_def type_specific_checks_def missing_signature_issue_def
        check_articles_specific_requirements_def check_memorandum_specific_requirements_def
        check_employment_contract_requirements_def erase_guidance_def comp_def case_prod_beta)

lemma severity_erase: "severity (erase_guidance i) = severity i"
  by (simp add: erase_guidance_def)

lemma count_severity_erase: "count_severity s (map erase_guidance xs) = count_severity s xs"
  by (simp add: count_severity_def comp_def severity_erase)

lemma metrics_issues: "issues_found (calculate_compliance_metrics a) = issues_found a"
  by (simp add: calculate_compliance_metrics_def Let_def)


lemma erase_issues:
  "map erase_guidance (issues_found (analyze_document red_flags rag doc dt)) =
     issues_found (analyze_document red_flags (\<lambda>d t. None) doc dt)"
  by (cases doc)
     (simp_all add: analyze_document_def Let_def calculate_compliance_metrics_def
        erase_pattern_scan erase_additional)

lemma analyze_status_docx:
  "compliance_status (analyze_document red_flags rag (Docx body) dt) =
     Some (get_compliance_status (compliance_score (analyze_document red_flags rag (Docx body) dt)))"
  by (simp add: analyze_document_def Let_def metrics_status)

text \<open>
  C9. Two runs of the detector on the same document and document type that differ only in
  what the enrichment collaborator answers (a text or nothing) give the same score and
  the same status, and their issue lists agree in every field but the guidance.
\<close>

theorem C9_guidance_never_alters_score:
  "compliance_score (analyze_document red_flags rag1 doc dt)
     = compliance_score (analyze_document red_flags rag2 doc dt)
   \<and> compliance_status (analyze_document red_flags rag1 doc dt)
     = compliance_status (analyze_document red_flags rag2 doc dt)
   \<and> map (\<lambda>i. i\<lparr>rag_guidance := None\<rparr>) (issues_found (analyze_document red_flags rag1 doc dt))
     = map (\<lambda>i. i\<lparr>rag_guidance := None\<rparr>) (issues_found (analyze_document red_flags rag2 doc dt))"
proof -
  have iss: "map erase_guidance (issues_found (analyze_document red_flags rag1 doc dt))
     = map erase_guidance (issues_found (analyze_document red_flags rag2 doc dt))"
    by (simp only: erase_issues)
  have cnt: "count_severity s (issues_found (analyze_document red_flags rag1 doc dt))
     = count_severity s (issues_found (analyze_document red_flags rag2 doc dt))" for s
    using iss count_severity_erase by metis
  have sc: "compliance_score (analyze_document red_flags rag1 doc dt)
     = compliance_score (analyze_document red_flags rag2 doc dt)"
  proof (cases doc)
    case (Unreadable e)
    then show ?thesis by (simp add: analyze_document_def)
  next
    case (Docx body)
    then show ?thesis
      using cnt [of "''High''"] cnt [of "''Medium''"]
      by (simp add: analyze_document_def Let_def metrics_score metrics_issues)
  qed
  have stt: "compliance_status (analyze_document red_flags rag1 doc dt)
     = compliance_status (analyze_document red_flags rag2 doc dt)"
    using sc by (cases doc) (simp_all add: analyze_status_docx, simp add: analyze_document_def)
  show ?thesis
    using iss sc stt by (simp add: erase_guidance_def [abs_def])
qed

section \<open>Order of the issue list\<close>

lemma flag_position_nth:
  "distinct (map fst xs) \<Longrightarrow> i < length xs \<Longrightarrow> flag_position xs (fst (xs ! i)) = i"
proof (induction xs arbitrary: i)
  case Nil
  then show ?case by simp
next
  case (Cons x xs)
  show ?case
  proof (cases i)
    case 0
    then show ?thesis by (simp add: flag_position_def case_prod_beta)
  next
    case (Suc j)
    with Cons.prems have j: "j < length xs" and d: "distinct (map fst xs)"
      and nx: "fst x \<notin> fst ` set xs" by auto
    from j have "xs ! j \<in> set xs" by simp
    with nx have "fst x \<noteq> fst (xs ! j)" by force
    with Cons.IH [OF d j] Suc show ?thesis
      by (simp add: flag_position_def case_prod_beta)
  qed
qed

lemma sorted_wrt_concat_map:
  "sorted_wrt P xs \<Longrightarrow> (\<And>x. x \<in> set xs \<Longrightarrow> sorted_wrt R (f x)) \<Longrightarrow>
   (\<And>x y a b. P x y \<Longrightarrow> a \<in> set (f x) \<Longrightarrow> b \<in> set (f y) \<Longrightarrow> R a b) \<Longrightarrow>
   sorted_wrt R (concat (map f xs))"
  by (induction xs) (auto simp: sorted_wrt_append)

lemma paragraphs_data_sorted:
  "sorted_wrt (\<lambda>a b. pd_index a \<le> pd_index b) (extract_paragraphs_data ps)"
proof -
  have "sorted_wrt (\<lambda>a b. fst a \<le> fst b) (enumerate n ps)" for n
    by (induction ps arbitrary: n) (auto simp: in_set_enumerate_eq)
  then have "sorted_wrt (\<lambda>a b. fst a \<le> fst b) (filter (\<lambda>(i, p). strip (p_text p) \<noteq> []) (enumerate 0 ps))"
    by (rule sorted_wrt_filter)
  then show ?thesis
    by (simp add: extract_paragraphs_data_def sorted_wrt_map case_prod_beta)
qed

lemma pattern_issue_fields:
  "flag_type (pattern_issue rag ft cfg pd p) = ft"
  "paragraph_index (pattern_issue rag ft cfg pd p) = pd_index pd"
  "pattern_found (pattern_issue rag ft cfg pd p) = Some p"
  by (simp_all add: pattern_issue_def)

lemma detect_flag_type:
  "i \<in> set (detect_flag_in_paragraphs rag pds ft cfg) \<Longrightarrow> flag_type i = ft \<and> pattern_found i \<noteq> None"
  by (auto simp: detect_flag_in_paragraphs_def pattern_issue_fields)

lemma detect_sorted:
  "sorted_wrt (\<lambda>a b. pd_index a \<le> pd_index b) pds \<Longrightarrow>
   sorted_wrt (\<lambda>a b. flag_type a = flag_type b \<and> paragraph_index a \<le> paragraph_index b)
     (detect_flag_in_paragraphs rag pds ft cfg)"
  unfolding detect_flag_in_paragraphs_def
proof (induction pds)
  case Nil
  then show ?case by simp
next
  case (Cons pd pds)
  have here: "sorted_wrt (\<lambda>a b. flag_type a = flag_type b \<and> paragraph_index a \<le> paragraph_index b)
     (map (pattern_issue rag ft cfg pd) ps)" for ps
    by (induction ps) (simp_all add: pattern_issue_fields)
  from Cons show ?case
    using here by (auto simp: sorted_wrt_append pattern_issue_fields)
qed

lemma pattern_scan_sorted:
  assumes "distinct (map fst red_flags)"
  shows "sorted_wrt (scan_before red_flags) (pattern_scan red_flags rag (extract_paragraphs_data ps))"
proof -
  let ?P = "\<lambda>x y. flag_position red_flags (fst x) < flag_position red_flags (fst y)"
  let ?f = "\<lambda>(ft, cfg). detect_flag_in_paragraphs rag (extract_paragraphs_data ps) ft cfg"
  have P: "sorted_wrt ?P red_flags"
    using assms by (simp add: sorted_wrt_iff_nth_less flag_position_nth)
  have grp: "sorted_wrt (scan_before red_flags) (?f x)" for x
    using detect_sorted [OF paragraphs_data_sorted, of rag ps "fst x" "snd x"]
    by (auto simp: case_prod_beta scan_before_def elim: sorted_wrt_mono_rel [rotated])
  have cross: "scan_before red_flags a b"
    if "?P x y" "a \<in> set (?f x)" "b \<in> set (?f y)" for x y a b
    using that detect_flag_type [of a rag _ "fst x" "snd x"] detect_flag_type [of b rag _ "fst y" "snd y"]
    by (simp add: case_prod_beta scan_before_def)
  show ?thesis
    unfolding pattern_scan_def
    by (rule sorted_wrt_concat_map [where P = ?P, OF P grp cross])
qed


lemma pattern_scan_found:
  "list_all (\<lambda>i. pattern_found i \<noteq> None) (pattern_scan red_flags rag pds)"
  using detect_flag_type by (induction red_flags) (auto simp: pattern_scan_def list_all_iff)

lemma articles_declared:
  "list_all (\<lambda>i. pattern_found i = None) (check_articles_specific_requirements rag pds)
   \<and> subseq (map suggestion (check_articles_specific_requirements rag pds))
        (map snd articles_required_sections)"
  by (simp add: check_articles_specific_requirements_def list.pred_map comp_def case_prod_beta
      list.pred_True subseq_map)

lemma memorandum_declared:
  "list_all (\<lambda>i. pattern_found i = None) (check_memorandum_specific_requirements rag pds)
   \<and> subseq (map suggestion (check_memorandum_specific_requirements rag pds))
        (map snd memorandum_required_elements)"
  by (simp add: check_memorandum_specific_requirements_def list.pred_map comp_def case_prod_beta
      list.pred_True subseq_map)

lemma employment_declared:
  "list_all (\<lambda>i. pattern_found i = None) (check_employment_contract_requirements rag pds)
   \<and> subseq (map suggestion (check_employment_contract_requirements rag pds))
        (map snd employment_required_clauses)"
  by (simp add: check_employment_contract_requirements_def list.pred_map comp_def case_prod_beta
      list.pred_True subseq_map)

lemma type_specific_declared:
  "list_all (\<lambda>i. pattern_found i = None) (type_specific_checks rag pds dt)
   \<and> subseq (map suggestion (type_specific_checks rag pds dt)) (map snd (declared_checks dt))"
  using articles_declared [of rag pds] memorandum_declared [of rag pds]
    employment_declared [of rag pds]
  by (simp add: type_specific_checks_def declared_checks_def)

lemma signature_part:
  "length (if has_signature pds then [] else [missing_signature_issue rag pds dt]) \<le> 1
   \<and> list_all (\<lambda>i. flag_type i = ''missing_signature'' \<and> pattern_found i = None)
        (if has_signature pds then [] else [missing_signature_issue rag pds dt])"
  by (simp add: missing_signature_issue_def)

lemma analyze_issues_docx:
  "issues_found (analyze_document red_flags rag (Docx body) dt) =
     pattern_scan red_flags rag (extract_paragraphs_data (paragraphs body))
     @ (if has_signature (extract_paragraphs_data (paragraphs body)) then []
        else [missing_signature_issue rag (extract_paragraphs_data (paragraphs body)) dt])
     @ type_specific_checks rag (extract_paragraphs_data (paragraphs body)) dt"
  by (simp add: analyze_document_def Let_def metrics_issues perform_additional_checks_def)

text \<open>
  C4 (as the code orders them). The issue list of a readable document is the pattern-scan
  issues, then at most one missing-signature issue, then the type-specific issues in
  their declared order. The pattern-scan issues are ordered by flag kind first (table
  order) and by paragraph within one flag kind: the flag loop is the outer one.
\<close>

theorem C4_issue_order:
  assumes "distinct (map fst red_flags)"
  shows "\<exists>scan sig specific.
      issues_found (analyze_document red_flags rag (Docx body) dt) = scan @ sig @ specific
    \<and> list_all (\<lambda>i. pattern_found i \<noteq> None) scan
    \<and> sorted_wrt (scan_before red_flags) scan
    \<and> length sig \<le> 1
    \<and> list_all (\<lambda>i. flag_type i = ''missing_signature'' \<and> pattern_found i = None) sig
    \<and> list_all (\<lambda>i. pattern_found i = None) specific
    \<and> subseq (map suggestion specific) (map snd (declared_checks dt))"
proof (intro exI conjI)
  show "issues_found (analyze_document red_flags rag (Docx body) dt) =
     pattern_scan red_flags rag (extract_paragraphs_data (paragraphs body))
     @ (if has_signature (extract_paragraphs_data (paragraphs body)) then []
        else [missing_signature_issue rag (extract_paragraphs_data (paragraphs body)) dt])
     @ type_specific_checks rag (extract_paragraphs_data (paragraphs body)) dt"
    by (rule analyze_issues_docx)
  show "list_all (\<lambda>i. pattern_found i \<noteq> None)
     (pattern_scan red_flags rag (extract_paragraphs_data (paragraphs body)))"
    by (rule pattern_scan_found)
  show "sorted_wrt (scan_before red_flags)
     (pattern_scan red_flags rag (extract_paragraphs_data (paragraphs body)))"
    by (rule pattern_scan_sorted [OF assms])
  show "length (if has_signature (extract_paragraphs_data (paragraphs body)) then []
        else [missing_signature_issue rag (extract_paragraphs_data (paragraphs body)) dt]) \<le> 1"
    by simp
  show "list_all (\<lambda>i. flag_type i = ''missing_signature'' \<and> pattern_found i = None)
     (if has_signature (extract_paragraphs_data (paragraphs body)) then []
        else [missing_signature_issue rag (extract_paragraphs_data (paragraphs body)) dt])"
    using signature_part by blast
  show "list_all (\<lambda>i. pattern_found i = None)
     (type_specific_checks rag (extract_paragraphs_data (paragraphs body)) dt)"
    using type_specific_declared by blast
  show "subseq (map suggestion (type_specific_checks rag (extract_paragraphs_data (paragraphs body)) dt))
     (map snd (declared_checks dt))"
    using type_specific_declared by blast
qed

text \<open>The ordering theorem at the shipped flag table and a two-paragraph document.\<close>

theorem C4_issue_order_witness:
  "\<exists>scan sig specific.
      issues_found (analyze_document RED_FLAGS (\<lambda>d t. None)
        (Docx [Para (plain ''Governed by UAE law''), Para (plain ''Any Dubai court'')])
        ''articles_of_association'') = scan @ sig @ specific
    \<and> list_all (\<lambda>i. pattern_found i \<noteq> None) scan
    \<and> sorted_wrt (scan_before RED_FLAGS) scan
    \<and> length sig \<le> 1
    \<and> list_all (\<lambda>i. flag_type i = ''missing_signature'' \<and> pattern_found i = None) sig
    \<and> list_all (\<lambda>i. pattern_found i = None) specific
    \<and> subseq (map suggestion specific) (map snd (declared_checks ''articles_of_association''))"
  by (rule C4_issue_order) (simp add: RED_FLAGS_def)

text \<open>
  Paragraph order is not the primary key: a governing-law phrase in paragraph 0 and a
  jurisdiction phrase in paragraph 1 are reported with paragraph 1 first.
\<close>

theorem C4_scan_not_in_paragraph_order:
  "map (\<lambda>i. (flag_type i, paragraph_index i))
     (issues_found (analyze_document RED_FLAGS (\<lambda>d t. None)
        (Docx [Para (plain ''Governed by UAE law''), Para (plain ''Dubai court; signed by X'')])
        ''unknown''))
   = [(''jurisdiction'', 1), (''governing_law'', 0)]"
  by code_simp

section \<open>Excerpts and the signature check\<close>

lemma excerpt_bound: "length (paragraph_text (pattern_issue rag ft cfg pd p)) \<le> 203"
  by (simp add: pattern_issue_def)

lemma detect_bound:
  "list_all (\<lambda>i. length (paragraph_text i) \<le> 203) (detect_flag_in_paragraphs rag pds ft cfg)"
  by (simp add: detect_flag_in_paragraphs_def list_all_iff excerpt_bound)

lemma scan_bound:
  "list_all (\<lambda>i. length (paragraph_text i) \<le> 203) (pattern_scan red_flags rag pds)"
  using detect_bound by (induction red_flags) (auto simp: pattern_scan_def list_all_iff)

lemma articles_excerpt:
  "list_all (\<lambda>i. paragraph_text i = ''Document structure'') (check_articles_specific_requirements rag pds)"
  by (simp add: check_articles_specific_requirements_def list.pred_map comp_def case_prod_beta list.pred_True)

lemma memorandum_excerpt:
  "list_all (\<lambda>i. paragraph_text i = ''Document content'') (check_memorandum_specific_requirements rag pds)"
  by (simp add: check_memorandum_specific_requirements_def list.pred_map comp_def case_prod_beta list.pred_True)

lemma employment_excerpt:
  "list_all (\<lambda>i. paragraph_text i = ''Contract terms'') (check_employment_contract_requirements rag pds)"
  by (simp add: check_employment_contract_requirements_def list.pred_map comp_def case_prod_beta list.pred_True)

lemma list_all_weaken: "list_all P xs \<Longrightarrow> (\<And>x. P x \<Longrightarrow> Q x) \<Longrightarrow> list_all Q xs"
  by (simp add: list_all_iff)

lemma type_specific_bound:
  "list_all (\<lambda>i. length (paragraph_text i) \<le> 203) (type_specific_checks rag pds dt)"
  unfolding type_specific_checks_def
  using list_all_weaken [OF articles_excerpt [of rag pds], of "\<lambda>i. length (paragraph_text i) \<le> 203"]
        list_all_weaken [OF memorandum_excerpt [of rag pds], of "\<lambda>i. length (paragraph_text i) \<le> 203"]
        list_all_weaken [OF employment_excerpt [of rag pds], of "\<lambda>i. length (paragraph_text i) \<le> 203"]
  by simp

lemma additional_bound:
  "list_all (\<lambda>i. length (paragraph_text i) \<le> 203) (perform_additional_checks rag pds dt)"
  by (simp add: perform_additional_checks_def type_specific_bound missing_signature_issue_def)

lemma paragraphs_data_origin:
  assumes "pd \<in> set (extract_paragraphs_data ps)"
  shows "0 \<le> pd_index pd \<and> nat (pd_index pd) < length ps
         \<and> pd_text pd = p_text (ps ! nat (pd_index pd))"
proof -
  from assms obtain i p where ip: "(i, p) \<in> set (enumerate 0 ps)"
    and pd: "pd = \<lparr>pd_index = int i, pd_text = p_text p, pd_text_lower = lower (p_text p)\<rparr>"
    by (auto simp: extract_paragraphs_data_def)
  from ip have "i < length ps" and "ps ! i = p"
    by (simp_all add: in_set_enumerate_eq)
  with pd show ?thesis by simp
qed

lemma pattern_issue_excerpt:
  "paragraph_text (pattern_issue rag ft cfg pd p) = excerpt_of (pd_text pd)"
  by (simp add: pattern_issue_def excerpt_of_def)

lemma detect_excerpt:
  "list_all (excerpt_from ps)
     (detect_flag_in_paragraphs rag (extract_paragraphs_data ps) ft cfg)"
  using paragraphs_data_origin [of _ ps]
  by (auto simp: detect_flag_in_paragraphs_def list_all_iff excerpt_from_def
        pattern_issue_fields pattern_issue_excerpt)

lemma scan_excerpt:
  "list_all (excerpt_from ps) (pattern_scan red_flags rag (extract_paragraphs_data ps))"
  using detect_excerpt [of ps rag]
  by (induction red_flags) (auto simp: pattern_scan_def list_all_iff)

lemma articles_excerpt_from:
  "list_all (excerpt_from ps) (check_articles_specific_requirements rag pds)"
  by (simp add: check_articles_specific_requirements_def list.pred_map comp_def case_prod_beta
      excerpt_from_def list.pred_True)

lemma memorandum_excerpt_from:
  "list_all (excerpt_from ps) (check_memorandum_specific_requirements rag pds)"
  by (simp add: check_memorandum_specific_requirements_def list.pred_map comp_def case_prod_beta
      excerpt_from_def list.pred_True)

lemma employment_excerpt_from:
  "list_all (excerpt_from ps) (check_employment_contract_requirements rag pds)"
  by (simp add: check_employment_contract_requirements_def list.pred_map comp_def case_prod_beta
      excerpt_from_def list.pred_True)

lemma additional_excerpt:
  "list_all (excerpt_from ps) (perform_additional_checks rag pds dt)"
  using articles_excerpt_from [of ps rag pds] memorandum_excerpt_from [of ps rag pds]
    employment_excerpt_from [of ps rag pds]
  by (simp add: perform_additional_checks_def type_specific_checks_def
      missing_signature_issue_def excerpt_from_def)

lemma excerpt_of_length: "length (excerpt_of t) \<le> 203"
  by (simp add: excerpt_of_def)

lemma analyze_excerpts:
  "list_all (excerpt_from (paragraphs body))
     (issues_found (analyze_document red_flags rag (Docx body) dt))"
  by (simp add: analyze_document_def Let_def metrics_issues scan_excerpt additional_excerpt)

text \<open>
  C7 (as the code truncates). The excerpt of every issue is at most 203 characters long.
  For a readable document, every issue of the pattern scan names a paragraph of the
  document and carries that paragraph's text when it has at most 200 characters, and
  otherwise its first 200 characters followed by "..."; every structural issue carries
  one of the four fixed texts.
\<close>

theorem C7_excerpt_at_most_203:
  "list_all (\<lambda>i. length (paragraph_text i) \<le> 203)
     (issues_found (analyze_document red_flags rag doc dt))
   \<and> list_all (excerpt_from (paragraphs body))
       (issues_found (analyze_document red_flags rag (Docx body) dt))"
proof
  show "list_all (\<lambda>i. length (paragraph_text i) \<le> 203)
     (issues_found (analyze_document red_flags rag doc dt))"
    by (cases doc)
       (simp_all add: analyze_document_def Let_def metrics_issues scan_bound additional_bound)
  show "list_all (excerpt_from (paragraphs body))
       (issues_found (analyze_document red_flags rag (Docx body) dt))"
    by (rule analyze_excerpts)
qed

text \<open>The two properties at a document whose one paragraph has 201 characters.\<close>

theorem C7_excerpt_at_most_203_witness:
  "issues_found (analyze_document RED_FLAGS (\<lambda>d t. None)
      (Docx [Para (plain (''ded signature'' @ replicate 188 (CHR ''x'')))]) ''unknown'') \<noteq> []
   \<and> list_all (\<lambda>i. length (paragraph_text i) \<le> 203)
       (issues_found (analyze_document RED_FLAGS (\<lambda>d t. None)
          (Docx [Para (plain (''ded signature'' @ replicate 188 (CHR ''x'')))]) ''unknown''))
   \<and> list_all (excerpt_from
         (paragraphs [Para (plain (''ded signature'' @ replicate 188 (CHR ''x'')))]))
       (issues_found (analyze_document RED_FLAGS (\<lambda>d t. None)
          (Docx [Para (plain (''ded signature'' @ replicate 188 (CHR ''x'')))]) ''unknown''))"
proof -
  have ne: "issues_found (analyze_document RED_FLAGS (\<lambda>d t. None)
      (Docx [Para (plain (''ded signature'' @ replicate 188 (CHR ''x'')))]) ''unknown'') \<noteq> []"
    by code_simp
  show ?thesis
    using ne C7_excerpt_at_most_203 [of RED_FLAGS "\<lambda>d t. None"
        "Docx [Para (plain (''ded signature'' @ replicate 188 (CHR ''x'')))]" "''unknown''"
        "[Para (plain (''ded signature'' @ replicate 188 (CHR ''x'')))]"]
    by blast
qed

text \<open>A paragraph of 201 characters that holds the pattern "ded": the excerpt has 203.\<close>

theorem C7_excerpt_of_203_characters:
  "map (\<lambda>i. (flag_type i, length (paragraph_text i)))
     (issues_found (analyze_document RED_FLAGS (\<lambda>d t. None)
        (Docx [Para (plain (''ded signature'' @ replicate 188 (CHR ''x'')))]) ''unknown''))
   = [(''registration_authority'', 203)]"
  by code_simp

text \<open>
  C6 (the code at a document with a blank paragraph). The document has two paragraphs, the
  first blank, and no signature keyword. The one issue is the Medium missing-signature
  issue, and its paragraph index is 0, the number of non-blank paragraphs less one, while
  the last paragraph of the document has index 1.
\<close>

theorem C6_signature_issue_index_counts_nonblank:
  "map (\<lambda>i. (flag_type i, severity i, paragraph_index i))
     (issues_found (analyze_document RED_FLAGS (\<lambda>d t. None)
        (Docx [Para (plain []), Para (plain ''Hello'')]) ''unknown''))
   = [(''missing_signature'', ''Medium'', 0)]
   \<and> int (length (paragraphs [Para (plain []), Para (plain ''Hello'')])) - 1 = 1"
  by code_simp

section \<open>Classification and the checklist\<close>

text \<open>
  C10. The label matching of the checklist engine is reflexive, and two labels that are
  equal up to case match; it is not symmetric: "ubo" matches "beneficial owner", but
  "beneficial owner" does not match "ubo".
\<close>

theorem C10_match_reflexive_not_symmetric:
  "documents_match a a
   \<and> (lower a = lower b \<longrightarrow> documents_match a b)
   \<and> documents_match ''ubo'' ''beneficial owner''
   \<and> \<not> documents_match ''beneficial owner'' ''ubo''"
proof -
  have r: "lower x = lower y \<Longrightarrow> documents_match x y" for x y
    by (simp add: documents_match_def)
  have m: "documents_match ''ubo'' ''beneficial owner''"
    by code_simp
  have n: "\<not> documents_match ''beneficial owner'' ''ubo''"
    by code_simp
  show ?thesis using r m n by simp
qed

text \<open>Two labels that differ in case only.\<close>

theorem C10_match_reflexive_not_symmetric_witness:
  "lower ''UBO Declaration'' = lower ''ubo declaration''
   \<and> documents_match ''UBO Declaration'' ''UBO Declaration''
   \<and> documents_match ''UBO Declaration'' ''ubo declaration''
   \<and> documents_match ''ubo'' ''beneficial owner''
   \<and> \<not> documents_match ''beneficial owner'' ''ubo''"
proof -
  have h: "lower ''UBO Declaration'' = lower ''ubo declaration''"
    by code_simp
  show ?thesis
    using h C10_match_reflexive_not_symmetric [of "''UBO Declaration''" "''ubo declaration''"]
    by blast
qed

lemma filename_keywords_fold:
  "fst (filename_keywords fname kws (s, b)) =
     fold max (map keyword_score (filter (\<lambda>keyword. str_in keyword fname) kws)) s"
  by (induction kws arbitrary: s b) (auto simp: max_def)

lemma filename_keywords_longest:
  "fst (filename_keywords fname kws (0, [])) = longest_match fname kws"
  by (simp add: filename_keywords_fold longest_match_def)

lemma fold_max_pos: "(0 < fold max xs (s::nat)) = (0 < s \<or> (\<exists>x\<in>set xs. 0 < x))"
  by (induction xs arbitrary: s) (auto simp: max_def)

lemma longest_match_pos:
  "(0 < longest_match fname kws) = (\<exists>keyword\<in>set kws. str_in keyword fname \<and> 0 < keyword_score keyword)"
  by (auto simp: longest_match_def fold_max_pos)

lemma filename_hit_longest:
  "filename_hit m fn = (\<exists>(dt, kws)\<in>set m. 0 < longest_match (lower fn) kws)"
  by (auto simp: filename_hit_def list_ex_iff longest_match_pos)

lemma first_max_split:
  "\<exists>pre post. (k0, v0) # kvs = pre @ first_max (k0, v0) kvs # post
     \<and> (\<forall>x\<in>set pre. snd x < snd (first_max (k0, v0) kvs))
     \<and> (\<forall>x\<in>set post. snd x \<le> snd (first_max (k0, v0) kvs))"
proof (induction kvs arbitrary: k0 v0)
  case Nil
  show ?case
    by (rule exI [of _ "[]"], rule exI [of _ "[]"]) simp
next
  case (Cons kv kvs)
  obtain k1 v1 where kv: "kv = (k1, v1)" by (cases kv)
  show ?case
  proof (cases "v0 < v1")
    case True
    define r where "r = first_max (k1, v1) kvs"
    have fm: "first_max (k0, v0) (kv # kvs) = r"
      using True by (simp add: kv r_def)
    from Cons.IH [of k1 v1] obtain pre post where
      split: "(k1, v1) # kvs = pre @ r # post"
      and lt: "\<forall>x\<in>set pre. snd x < snd r"
      and le: "\<forall>x\<in>set post. snd x \<le> snd r"
      unfolding r_def by blast
    have "v1 \<le> snd r"
    proof (cases pre)
      case Nil
      with split have "r = (k1, v1)" by simp
      then show ?thesis by simp
    next
      case (Cons y ys)
      with split have "y = (k1, v1)" by simp
      with Cons lt have "v1 < snd r" by simp
      then show ?thesis by simp
    qed
    with True have v0: "v0 < snd r" by simp
    have 1: "(k0, v0) # kv # kvs = ((k0, v0) # pre) @ r # post"
      by (simp only: kv append_Cons split)
    have 2: "\<forall>x\<in>set ((k0, v0) # pre). snd x < snd r"
      using lt v0 by simp
    show ?thesis
      unfolding fm
      by (rule exI [of _ "(k0, v0) # pre"], rule exI [of _ post]) (intro conjI 1 2 le)
  next
    case False
    define r where "r = first_max (k0, v0) kvs"
    have fm: "first_max (k0, v0) (kv # kvs) = r"
      using False by (simp add: kv r_def)
    from Cons.IH [of k0 v0] obtain pre post where
      split: "(k0, v0) # kvs = pre @ r # post"
      and lt: "\<forall>x\<in>set pre. snd x < snd r"
      and le: "\<forall>x\<in>set post. snd x \<le> snd r"
      unfolding r_def by blast
    show ?thesis
    proof (cases pre)
      case Nil
      with split have r: "r = (k0, v0)" and post: "post = kvs" by simp_all
      have 1: "(k0, v0) # kv # kvs = [] @ r # (kv # kvs)"
        by (simp add: r)
      have 2: "\<forall>x\<in>set ([] :: ('a \<times> nat) list). snd x < snd r"
        by simp
      have 3: "\<forall>x\<in>set (kv # kvs). snd x \<le> snd r"
        using le False by (simp add: post r kv)
      show ?thesis
        unfolding fm
        by (rule exI [of _ "[]"], rule exI [of _ "kv # kvs"]) (intro conjI 1 2 3)
    next
      case (Cons y ys)
      with split have y: "y = (k0, v0)" and kvs: "kvs = ys @ r # post"
        by simp_all
      from Cons y lt have v0: "v0 < snd r" by simp
      with False have v1: "v1 < snd r" by simp
      from Cons lt have ys: "\<forall>x\<in>set ys. snd x < snd r" by simp
      have 1: "(k0, v0) # kv # kvs = ((k0, v0) # kv # ys) @ r # post"
        using kvs by simp
      have 2: "\<forall>x\<in>set ((k0, v0) # kv # ys). snd x < snd r"
        using ys v0 v1 by (simp add: kv)
      show ?thesis
        unfolding fm
        by (rule exI [of _ "(k0, v0) # kv # ys"], rule exI [of _ post]) (intro conjI 1 2 le)
    qed
  qed
qed

lemma filename_scores:
  "map (\<lambda>(doc_type, kws). (doc_type, fst (filename_keywords fname kws (0, [])))) m
     = map (\<lambda>x. (fst x, longest_match fname (snd x))) m"
  by (simp add: filename_keywords_longest case_prod_beta)

lemma max_key_split:
  assumes "max_key (map g m) = Some r"
  shows "\<exists>pre x post. m = pre @ x # post \<and> g x = r
     \<and> (\<forall>y\<in>set pre. snd (g y) < snd r) \<and> (\<forall>y\<in>set post. snd (g y) \<le> snd r)"
proof (cases m)
  case Nil
  with assms show ?thesis by (simp add: max_key_def)
next
  case (Cons x0 xs)
  obtain k0 v0 where g0: "g x0 = (k0, v0)" by (cases "g x0")
  from assms Cons g0 have r: "r = first_max (k0, v0) (map g xs)"
    by (simp add: max_key_def)
  from first_max_split [of k0 v0 "map g xs"] obtain pre' post' where
    split: "(k0, v0) # map g xs = pre' @ r # post'"
    and lt: "\<forall>y\<in>set pre'. snd y < snd r"
    and le: "\<forall>y\<in>set post'. snd y \<le> snd r"
    unfolding r by blast
  from split g0 Cons have "map g m = pre' @ r # post'" by simp
  then obtain pre x post where m: "m = pre @ x # post" and pre: "map g pre = pre'"
    and x: "g x = r" and post: "map g post = post'"
    by (auto simp: map_eq_append_conv map_eq_Cons_conv)
  from lt pre have 1: "\<forall>y\<in>set pre. snd (g y) < snd r" by auto
  from le post have 2: "\<forall>y\<in>set post. snd (g y) \<le> snd r" by auto
  from m x 1 2 show ?thesis by blast
qed

lemma classify_by_filename_Some:
  assumes "classify_by_filename m fn = Some dt"
  shows "\<exists>pre kws post. m = pre @ (dt, kws) # post
     \<and> 0 < longest_match (lower fn) kws
     \<and> list_all (\<lambda>(d, k). longest_match (lower fn) k < longest_match (lower fn) kws) pre
     \<and> list_all (\<lambda>(d, k). longest_match (lower fn) k \<le> longest_match (lower fn) kws) post"
proof -
  let ?g = "\<lambda>x. (fst x, longest_match (lower fn) (snd x))"
  from assms obtain v where mk: "max_key (map ?g m) = Some (dt, v)" and v: "0 < v"
    by (auto simp: classify_by_filename_def Let_def filename_scores
        split: option.splits if_splits)
  from max_key_split [OF mk] obtain pre x post where
    m: "m = pre @ x # post" and x: "?g x = (dt, v)"
    and lt: "\<forall>y\<in>set pre. snd (?g y) < snd (dt, v)"
    and le: "\<forall>y\<in>set post. snd (?g y) \<le> snd (dt, v)"
    by blast
  from x have x': "x = (dt, snd x)" and lv: "longest_match (lower fn) (snd x) = v"
    by (auto simp: prod_eq_iff)
  from m x' have 1: "m = pre @ (dt, snd x) # post" by simp
  from v lv have 2: "0 < longest_match (lower fn) (snd x)" by simp
  from lt lv have 3: "list_all (\<lambda>(d, k). longest_match (lower fn) k
        < longest_match (lower fn) (snd x)) pre"
    by (auto simp: list_all_iff)
  from le lv have 4: "list_all (\<lambda>(d, k). longest_match (lower fn) k
        \<le> longest_match (lower fn) (snd x)) post"
    by (auto simp: list_all_iff)
  from 1 2 3 4 show ?thesis by blast
qed

lemma first_max_ge:
  assumes "x \<in> set ((k0, v0) # kvs)"
  shows "snd x \<le> snd (first_max (k0, v0) kvs)"
proof -
  define r where "r = first_max (k0, v0) kvs"
  from first_max_split [of k0 v0 kvs] obtain pre post where
    split: "(k0, v0) # kvs = pre @ r # post"
    and lt: "\<forall>y\<in>set pre. snd y < snd r"
    and le: "\<forall>y\<in>set post. snd y \<le> snd r"
    unfolding r_def by blast
  have "set ((k0, v0) # kvs) = set (pre @ r # post)"
    by (simp only: split)
  with assms have "x \<in> set pre \<or> x = r \<or> x \<in> set post"
    by auto
  with lt le show ?thesis
    unfolding r_def [symmetric] by (auto simp: less_imp_le)
qed

lemma classify_by_filename_hit:
  "(classify_by_filename m fn \<noteq> None) = filename_hit m fn"
proof
  assume "classify_by_filename m fn \<noteq> None"
  then obtain dt where "classify_by_filename m fn = Some dt" by auto
  from classify_by_filename_Some [OF this] show "filename_hit m fn"
    by (auto simp: filename_hit_longest)
next
  assume "filename_hit m fn"
  then obtain dt kws where in_m: "(dt, kws) \<in> set m" and pos: "0 < longest_match (lower fn) kws"
    by (auto simp: filename_hit_longest)
  let ?g = "\<lambda>x. (fst x, longest_match (lower fn) (snd x))"
  from in_m obtain x0 xs where m: "m = x0 # xs" by (cases m) auto
  have "?g (dt, kws) \<in> set (?g x0 # map ?g xs)"
    using in_m m by force
  from first_max_ge [of _ "fst x0" "longest_match (lower fn) (snd x0)", OF this]
  have "0 < snd (first_max (?g x0) (map ?g xs))"
    using pos by simp
  then show "classify_by_filename m fn \<noteq> None"
    unfolding classify_by_filename_def Let_def filename_scores
    by (simp add: m max_key_def case_prod_beta)
qed

lemma classify_filename_decides:
  "classify_by_filename m fn = Some dt \<Longrightarrow> classify_document_type m f fn = dt"
  by (simp add: classify_document_type_def)

text \<open>
  C8 (as the code classifies). Classification is a total function: it always returns a
  type. When no keyword with a non-blank character occurs in the lower-cased file name, a
  document that cannot be opened, or one whose extracted text is empty, is classified
  unknown. When such a keyword occurs, the file name decides and the content plays no
  part: the result is the same as for an unreadable file, and it is the first document
  type of the table whose longest matching keyword is the longest of all types.
\<close>

theorem C8_unreadable_classified_unknown:
  "(\<not> filename_hit document_mappings filename \<longrightarrow>
      classify_document_type document_mappings (Unreadable e) filename = ''unknown''
      \<and> (extract_text_from_docx f = [] \<longrightarrow>
           classify_document_type document_mappings f filename = ''unknown''))
   \<and> (filename_hit document_mappings filename \<longrightarrow>
      classify_document_type document_mappings f filename
        = classify_document_type document_mappings (Unreadable e) filename
      \<and> (\<exists>pre kws post.
            document_mappings = pre @ (classify_document_type document_mappings f filename, kws) # post
          \<and> 0 < longest_match (lower filename) kws
          \<and> list_all (\<lambda>(d, k). longest_match (lower filename) k
                                 < longest_match (lower filename) kws) pre
          \<and> list_all (\<lambda>(d, k). longest_match (lower filename) k
                                 \<le> longest_match (lower filename) kws) post))"
proof (intro conjI impI)
  assume "\<not> filename_hit document_mappings filename"
  then have none: "classify_by_filename document_mappings filename = None"
    using classify_by_filename_hit [of document_mappings filename] by simp
  show "classify_document_type document_mappings (Unreadable e) filename = ''unknown''"
    by (simp add: classify_document_type_def none extract_text_from_docx_def)
  show "classify_document_type document_mappings f filename = ''unknown''"
    if "extract_text_from_docx f = []"
    using that by (simp add: classify_document_type_def none)
next
  assume "filename_hit document_mappings filename"
  then obtain dt where some: "classify_by_filename document_mappings filename = Some dt"
    using classify_by_filename_hit [of document_mappings filename] by auto
  have dec: "classify_document_type document_mappings f filename = dt"
    by (rule classify_filename_decides [OF some])
  show "classify_document_type document_mappings f filename
        = classify_document_type document_mappings (Unreadable e) filename"
    by (simp add: dec classify_filename_decides [OF some])
  show "\<exists>pre kws post.
            document_mappings = pre @ (classify_document_type document_mappings f filename, kws) # post
          \<and> 0 < longest_match (lower filename) kws
          \<and> list_all (\<lambda>(d, k). longest_match (lower filename) k
                                 < longest_match (lower filename) kws) pre
          \<and> list_all (\<lambda>(d, k). longest_match (lower filename) k
                                 \<le> longest_match (lower filename) kws) post"
    unfolding dec by (rule classify_by_filename_Some [OF some])
qed

text \<open>
  The shipped type table: a file name that holds none of its keywords, and one that holds
  the keyword "articles" while the content speaks of a memorandum.
\<close>

theorem C8_unreadable_classified_unknown_witness:
  "\<not> filename_hit DOCUMENT_TYPE_MAPPINGS ''scan_001.docx''
   \<and> extract_text_from_docx (Docx [Para (plain [])]) = []
   \<and> classify_document_type DOCUMENT_TYPE_MAPPINGS (Unreadable ''bad zip file'') ''scan_001.docx''
       = ''unknown''
   \<and> classify_document_type DOCUMENT_TYPE_MAPPINGS (Docx [Para (plain [])]) ''scan_001.docx''
       = ''unknown''
   \<and> filename_hit DOCUMENT_TYPE_MAPPINGS ''articles.docx''
   \<and> classify_document_type DOCUMENT_TYPE_MAPPINGS
         (Docx [Para (plain ''Memorandum of Association'')]) ''articles.docx''
       = classify_document_type DOCUMENT_TYPE_MAPPINGS (Unreadable ''bad zip file'') ''articles.docx''"
proof -
  have h: "\<not> filename_hit DOCUMENT_TYPE_MAPPINGS ''scan_001.docx''"
    by code_simp
  have t: "extract_text_from_docx (Docx [Para (plain [])]) = []"
    by code_simp
  have g: "filename_hit DOCUMENT_TYPE_MAPPINGS ''articles.docx''"
    by code_simp
  show ?thesis
    using h t g
      C8_unreadable_classified_unknown [of DOCUMENT_TYPE_MAPPINGS "''scan_001.docx''"
        "''bad zip file''" "Docx [Para (plain [])]"]
      C8_unreadable_classified_unknown [of DOCUMENT_TYPE_MAPPINGS "''articles.docx''"
        "''bad zip file''" "Docx [Para (plain ''Memorandum of Association'')]"]
    by blast
qed

text \<open>
  The file name is looked at first and the content is not read once it decides: an
  unreadable file called articles.docx is classified as articles of association.
\<close>

theorem C8_unreadable_with_keyword_in_name:
  "classify_document_type DOCUMENT_TYPE_MAPPINGS (Unreadable ''bad zip file'') ''articles.docx''
     = ''articles_of_association''"
  by code_simp

lemma checklist_loop_filter:
  "checklist_loop up req (m, f) =
     (m @ filter (\<lambda>r. \<not> list_ex (\<lambda>u. documents_match u r) up) req,
      f @ filter (\<lambda>r. list_ex (\<lambda>u. documents_match u r) up) req)"
  by (induction req arbitrary: m f) auto

lemma list_ex_convert:
  "list_ex (\<lambda>u. documents_match u r) (map convert_doc_type_to_readable ds) = uploaded_matches ds r"
  by (simp add: uploaded_matches_def list_ex_iff)

lemma fl_0: "fl 0 = 0"
  by (simp add: fl_def)

lemma fl_1: "fl 1 = 1"
  by code_simp

lemma fl_100: "fl 100 = 100"
  by code_simp

lemma float_round1_100: "float_round1 100 = 100"
  by code_simp

lemma float_round1_0: "float_round1 0 = 0"
  by (simp add: float_round1_def round_half_even_def fl_0)

lemma completeness_all: "0 < k \<Longrightarrow> float_round1 (float_mul (float_div (of_nat k) (of_nat k)) 100) = 100"
  by (simp add: float_div_def float_mul_def fl_1 fl_100 float_round1_100)

lemma completeness_none: "float_round1 (float_mul (float_div 0 k) 100) = 0"
  by (simp add: float_div_def float_mul_def fl_0 float_round1_0)

lemma report_known:
  assumes "map_of process_checklists process_type = Some c"
  shows "found_documents (generate_checklist_report process_checklists document_types process_type)
           = Some (filter (uploaded_matches document_types) (required_docs_of c))"
    and "missing_documents (generate_checklist_report process_checklists document_types process_type)
           = filter (\<lambda>r. \<not> uploaded_matches document_types r) (required_docs_of c)"
    and "completeness_percentage (generate_checklist_report process_checklists document_types process_type)
           = (if required_docs_of c = [] then 100
              else float_round1 (float_mul
                     (float_div (of_nat (length (filter (uploaded_matches document_types) (required_docs_of c))))
                                (of_nat (length (required_docs_of c))))
                     100))"
  using assms
  by (simp_all add: generate_checklist_report_def Let_def checklist_loop_filter list_ex_convert
        float_round1_100)

text \<open>
  C3 (with the percentage as the code computes it). For a process of the checklist table,
  the found documents are the required labels that some uploaded document matches and
  the missing documents are the other required labels, each list in the order of the
  required list: no label is in both, together they are the required labels, and their
  lengths add up to the length of the required list. The completeness is 100 for an
  empty required list; otherwise it is the float quotient \<open>m / k\<close> times 100, rounded
  to one decimal, for \<open>m\<close> found out of \<open>k\<close> required. It is 100 when nothing is
  missing and 0 when nothing is found.
\<close>

theorem C3_checklist_partition:
  assumes "map_of process_checklists process_type = Some c"
  shows "\<exists>found missing.
      found_documents (generate_checklist_report process_checklists document_types process_type)
        = Some found
    \<and> missing_documents (generate_checklist_report process_checklists document_types process_type)
        = missing
    \<and> found = filter (uploaded_matches document_types) (required_docs_of c)
    \<and> missing = filter (\<lambda>r. \<not> uploaded_matches document_types r) (required_docs_of c)
    \<and> set found \<inter> set missing = {}
    \<and> set found \<union> set missing = set (required_docs_of c)
    \<and> length found + length missing = length (required_docs_of c)
    \<and> completeness_percentage
        (generate_checklist_report process_checklists document_types process_type)
        = (if required_docs_of c = [] then 100
           else float_round1 (float_mul
                  (float_div (of_nat (length found)) (of_nat (length (required_docs_of c)))) 100))
    \<and> (missing = [] \<longrightarrow>
         completeness_percentage
           (generate_checklist_report process_checklists document_types process_type) = 100)
    \<and> (found = [] \<and> required_docs_of c \<noteq> [] \<longrightarrow>
         completeness_percentage
           (generate_checklist_report process_checklists document_types process_type) = 0)"
proof (intro exI conjI)
  let ?req = "required_docs_of c"
  let ?P = "uploaded_matches document_types"
  let ?R = "generate_checklist_report process_checklists document_types process_type"
  have pct: "completeness_percentage ?R
        = (if ?req = [] then 100
           else float_round1 (float_mul
                  (float_div (of_nat (length (filter ?P ?req))) (of_nat (length ?req))) 100))"
    by (rule report_known(3) [OF assms])
  have len: "length (filter ?P ?req) + length (filter (\<lambda>r. \<not> ?P r) ?req) = length ?req"
    by (rule sum_length_filter_compl)
  show "found_documents ?R = Some (filter ?P ?req)"
    by (rule report_known(1) [OF assms])
  show "missing_documents ?R = filter (\<lambda>r. \<not> ?P r) ?req"
    by (rule report_known(2) [OF assms])
  show "filter ?P ?req = filter ?P ?req" and "filter (\<lambda>r. \<not> ?P r) ?req = filter (\<lambda>r. \<not> ?P r) ?req"
    by (rule refl)+
  show "set (filter ?P ?req) \<inter> set (filter (\<lambda>r. \<not> ?P r) ?req) = {}"
    by auto
  show "set (filter ?P ?req) \<union> set (filter (\<lambda>r. \<not> ?P r) ?req) = set ?req"
    by auto
  show "length (filter ?P ?req) + length (filter (\<lambda>r. \<not> ?P r) ?req) = length ?req"
    by (rule len)
  show "completeness_percentage ?R
        = (if ?req = [] then 100
           else float_round1 (float_mul
                  (float_div (of_nat (length (filter ?P ?req))) (of_nat (length ?req))) 100))"
    by (rule pct)
  show "filter (\<lambda>r. \<not> ?P r) ?req = [] \<longrightarrow> completeness_percentage ?R = 100"
  proof
    assume "filter (\<lambda>r. \<not> ?P r) ?req = []"
    with len have eq: "length (filter ?P ?req) = length ?req" by simp
    show "completeness_percentage ?R = 100"
    proof (cases "?req = []")
      case True
      with pct show ?thesis by simp
    next
      case False
      then have "0 < length ?req" by simp
      from completeness_all [OF this] pct False eq show ?thesis by simp
    qed
  qed
  show "filter ?P ?req = [] \<and> ?req \<noteq> [] \<longrightarrow> completeness_percentage ?R = 0"
    using pct completeness_none [of "of_nat (length ?req)"] by simp
qed

text \<open>
  The shipped table: one of the six required documents of a private company limited,
  which gives 16.7.
\<close>

theorem C3_checklist_partition_witness:
  "map_of PROCESS_CHECKLISTS ''Private Company Limited'' =
     Some \<lparr>required_documents = Some
             [''Memorandum of Association'', ''Articles of Association'', ''Application Form'',
              ''Register of Members'', ''Register of Directors'', ''UBO Declaration''],
           optional_documents = None\<rparr>
   \<and> found_documents (generate_checklist_report PROCESS_CHECKLISTS
          [''ubo_declaration''] ''Private Company Limited'')
       = Some [''UBO Declaration'']
   \<and> missing_documents (generate_checklist_report PROCESS_CHECKLISTS
          [''ubo_declaration''] ''Private Company Limited'')
       = [''Memorandum of Association'', ''Articles of Association'', ''Application Form'',
          ''Register of Members'', ''Register of Directors'']
   \<and> completeness_percentage (generate_checklist_report PROCESS_CHECKLISTS
          [''ubo_declaration''] ''Private Company Limited'')
       = fl (167 / 10)"
proof -
  let ?req = "[''Memorandum of Association'', ''Articles of Association'', ''Application Form'',
              ''Register of Members'', ''Register of Directors'', ''UBO Declaration'']"
  let ?c = "\<lparr>required_documents = Some ?req, optional_documents = None\<rparr>"
  let ?ds = "[''ubo_declaration'']"
  let ?R = "generate_checklist_report PROCESS_CHECKLISTS ?ds ''Private Company Limited''"
  have h: "map_of PROCESS_CHECKLISTS ''Private Company Limited'' = Some ?c"
    by (simp add: PROCESS_CHECKLISTS_def)
  have req: "required_docs_of ?c = ?req"
    by (simp add: required_docs_of_def)
  have f: "filter (uploaded_matches ?ds) ?req = [''UBO Declaration'']"
    by code_simp
  have m: "filter (\<lambda>r. \<not> uploaded_matches ?ds r) ?req
      = [''Memorandum of Association'', ''Articles of Association'', ''Application Form'',
         ''Register of Members'', ''Register of Directors'']"
    by code_simp
  have r: "float_round1 (float_mul (float_div (of_nat (Suc 0)) (of_nat 6)) 100) = fl (167 / 10)"
    by code_simp
  from C3_checklist_partition [OF h, of ?ds] obtain found missing where
    1: "found_documents ?R = Some found"
    and 2: "missing_documents ?R = missing"
    and 3: "found = filter (uploaded_matches ?ds) (required_docs_of ?c)"
    and 4: "missing = filter (\<lambda>r. \<not> uploaded_matches ?ds r) (required_docs_of ?c)"
    and 5: "completeness_percentage ?R
        = (if required_docs_of ?c = [] then 100
           else float_round1 (float_mul
                  (float_div (of_nat (length found)) (of_nat (length (required_docs_of ?c)))) 100))"
    by blast
  from 3 f have found: "found = [''UBO Declaration'']"
    by (simp only: req)
  from 4 m have missing: "missing = [''Memorandum of Association'', ''Articles of Association'',
      ''Application Form'', ''Register of Members'', ''Register of Directors'']"
    by (simp only: req)
  from 5 have "completeness_percentage ?R = fl (167 / 10)"
    unfolding found req using r by simp
  with h 1 2 found missing show ?thesis by simp
qed

text \<open>
  The percentage is not always \<open>100 * m / k\<close> rounded to one decimal. With 23 of 80
  required documents found, \<open>100 * 23 / 80\<close> is 28.75 and rounds to 28.8, as an exact
  number and as a float; the float \<open>23 / 80\<close> times 100 lies just below 28.75, and the
  report says 28.7.
\<close>

theorem C3_quotient_first_rounds_down:
  "found_documents (generate_checklist_report
       [(''P'', \<lparr>required_documents = Some (replicate 23 ''articles'' @ replicate 57 ''x''),
                optional_documents = None\<rparr>)]
       [''articles_of_association''] ''P'')
     = Some (replicate 23 ''articles'')
   \<and> length (replicate 23 ''articles'' @ replicate 57 ''x'') = 80
   \<and> completeness_percentage (generate_checklist_report
       [(''P'', \<lparr>required_documents = Some (replicate 23 ''articles'' @ replicate 57 ''x''),
                optional_documents = None\<rparr>)]
       [''articles_of_association''] ''P'')
     = fl (287 / 10)
   \<and> round1 (100 * 23 / 80) = 288 / 10
   \<and> float_round1 (float_div (100 * 23) 80) = fl (288 / 10)
   \<and> fl (287 / 10) < fl (288 / 10)"
proof -
  let ?req = "replicate 23 ''articles'' @ replicate 57 ''x''"
  let ?c = "\<lparr>required_documents = Some ?req, optional_documents = None\<rparr>"
  let ?ds = "[''articles_of_association'']"
  have h: "map_of [(''P'', ?c)] ''P'' = Some ?c"
    by simp
  have req: "required_docs_of ?c = ?req"
    by (simp add: required_docs_of_def)
  have a: "uploaded_matches ?ds ''articles''"
    by code_simp
  have x: "\<not> uploaded_matches ?ds ''x''"
    by code_simp
  have f: "filter (uploaded_matches ?ds) ?req = replicate 23 ''articles''"
    using a x by simp
  have v: "float_round1 (float_mul (float_div (of_nat 23) (of_nat 80)) 100) = fl (287 / 10)"
    by code_simp
  have c1: "round1 (100 * 23 / 80) = 288 / 10"
    by code_simp
  have c2: "float_round1 (float_div (100 * 23) 80) = fl (288 / 10)"
    by code_simp
  have c3: "fl (287 / 10) < fl (288 / 10)"
    by code_simp
  have 1: "found_documents (generate_checklist_report [(''P'', ?c)] ?ds ''P'')
      = Some (replicate 23 ''articles'')"
    using report_known(1) [OF h, of ?ds] by (simp only: req f)
  have 2: "completeness_percentage (generate_checklist_report [(''P'', ?c)] ?ds ''P'') = fl (287 / 10)"
    using report_known(3) [OF h, of ?ds] v by (simp only: req f) simp
  show ?thesis
    using 1 2 c1 c2 c3 by simp
qed

section \<open>Where the comments land\<close>

text \<open>
  C1 (the code at a two-paragraph document). The detector flags paragraph 1, the one that
  names a Dubai court. In the annotated copy the title paragraph comes first, so that
  \<^verbatim>\<open>doc.paragraphs[1]\<close> is now the paragraph before the flagged one: that paragraph is
  highlighted, and the comment (the italic paragraph) is moved to child 2 of the body,
  in front of the flagged paragraph instead of behind it.
\<close>

theorem C1_comment_lands_after_the_wrong_paragraph:
  "map paragraph_index
     (issues_found (analyze_document RED_FLAGS (\<lambda>d t. None)
        (Docx [Para (plain ''Alpha clause''), Para (plain ''Any Dubai court; signed by X''), SectPr])
        ''unknown'')) = [1]
   \<and> map_option (\<lambda>body. map (\<lambda>p. (take 12 (p_text p), p_highlight p, p_italic p))
                            (take 4 (paragraphs body)))
       (create_reviewed_document
          \<lparr>header_date = ''2025-01-01 10:00:00'', summary_date = ''2025-01-01 10:00:01'',
           set_order = remdups\<rparr>
          (Docx [Para (plain ''Alpha clause''), Para (plain ''Any Dubai court; signed by X''), SectPr])
          (analyze_document RED_FLAGS (\<lambda>d t. None)
             (Docx [Para (plain ''Alpha clause''), Para (plain ''Any Dubai court; signed by X''), SectPr])
             ''unknown''))
     = Some [(''=== ADGM COM'', None, False),
             (''Alpha clause'', Some RED, False),
             (nl @ [CHR 0xF0, CHR 0x9F, CHR 0x9A, CHR 0xA8] @ '' COMPLI'', None, True),
             (''Any Dubai co'', None, False)]"
  by code_simp

end
